theory Spec2Isabelle
  imports Complex_Main "HOL-Library.Multiset"
begin

section \<open>Loop closure detection of libhaloc: the class \<open>haloc::LoopClosure\<close> of \<open>src/lc.cpp\<close>\<close>

text \<open>
  The development embeds \<open>setNode\<close>, \<open>getLoopClosure\<close> and \<open>compute\<close> of
  \<open>src/src/lc.cpp\<close>. Reference parameters of the C++ code (\<open>lc_img_idx\<close>,
  \<open>lc_name\<close>, \<open>trans\<close>, \<open>matches\<close>, \<open>inliers\<close>) are passed in holding what the caller's
  variable holds and are returned holding what it holds when the function returns. The member
  variables of the class are the fields of a record (\<open>params_\<close>, \<open>img_\<close>, \<open>hash_\<close>,
  \<open>camera_matrix_\<close>, \<open>hash_table_\<close> and \<open>img_idx_\<close>, written without the trailing
  underscore), and the files of the working directory are a map from path names to the
  four fields that \<open>setNode\<close> writes.

  Numbers. \<open>float\<close> and \<open>double\<close> values are modelled as \<open>real\<close>: the only
  floating point operations of \<open>lc.cpp\<close> itself are the comparison of two scores by the
  sort predicate and the test \<open>f_sum < 1e-3\<close>; NaN is not modelled. \<open>int\<close> values are
  mathematical integers; the conversion of an \<open>int\<close> to \<open>size_t\<close> that C++ applies
  when it compares \<open>hash_table_.size()\<close> with \<open>params_.min_neighbour\<close> is written out
  (\<open>to_size_t\<close>, 64 bit). Theorems that need an \<open>int\<close> to be in its 32 bit range say so.
\<close>

subsection \<open>Data\<close>

type_synonym Point2f = "real \<times> real"
type_synonym Point3f = "real \<times> real \<times> real"

text \<open>A single-channel \<open>cv::Mat\<close>, as the list of its rows.\<close>
type_synonym Mat = "real list list"

text \<open>\<open>tf::Transform\<close>: a 3x3 basis and an origin.\<close>
type_synonym Transform = "Mat \<times> real list"

definition identity_tf :: Transform where
  "identity_tf = ([[1, 0, 0], [0, 1, 0], [0, 0, 1]], [0, 0, 0])"

record DMatch =
  queryIdx :: int
  trainIdx :: int
  distance :: real

text \<open>What \<open>lc.cpp\<close> reads from a \<open>haloc::Image\<close>: \<open>getKp()\<close>, \<open>getDesc()\<close>, \<open>get3D()\<close>.\<close>
record Image =
  getKp :: "Point2f list"
  getDesc :: Mat
  get3D :: "Point3f list"

text \<open>The content of one \<open>.yml\<close> file of the working directory.\<close>
record Node =
  node_name :: string
  node_kp :: "Point2f list"
  node_desc :: Mat
  node_threed :: "Point3f list"

type_synonym FileSystem = "string \<rightharpoonup> Node"

record Params =
  work_dir :: string
  desc_type :: string
  num_proj :: int
  desc_thresh :: real
  epipolar_thresh :: real
  min_neighbour :: int
  n_candidates :: int
  min_matches :: int
  min_inliers :: int
  max_reproj_err :: real
  validate :: bool

text \<open>
  Modelled from the spec: \<open>haloc::Hash\<close> (\<open>hash.h\<close>, \<open>hash.cpp\<close>) is not among the
  sources. The spec describes it as holding a projection basis that \<open>init\<close> seeds from the
  first descriptors and that stays fixed, with \<open>isInitialized()\<close> reporting whether that
  has happened.
\<close>
record Hash =
  initialized :: bool
  basis :: Mat

record LoopClosure =
  params :: Params
  img :: Image
  hash :: Hash
  camera_matrix :: Mat
  hash_table :: "(int \<times> real list) list"
  img_idx :: int

text \<open>
  The functions that \<open>lc.cpp\<close> calls and that live outside it: OpenCV
  (\<open>findFundamentalMat\<close>, \<open>solvePnPRansac\<close>), the C++ standard library (\<open>std::sort\<close>),
  \<open>haloc::Utils\<close> (\<open>crossCheckThresholdMatching\<close>, \<open>buildTransformation\<close>) and the
  numeric part of \<open>haloc::Hash\<close>. They are parameters of the model; nothing is assumed
  about them except where a theorem states it.
  \<open>findFundamentalMat\<close> returns the matrix \<open>F\<close> and the inlier mask \<open>status\<close>;
  \<open>solvePnPRansac\<close> returns \<open>rvec\<close>, \<open>tvec\<close> and the list of inlier indices.
\<close>
record Toolkit =
  crossCheckThresholdMatching :: "Mat \<Rightarrow> Mat \<Rightarrow> real \<Rightarrow> DMatch list"
  findFundamentalMat :: "Point2f list \<Rightarrow> Point2f list \<Rightarrow> real \<Rightarrow> Mat \<times> int list"
  solvePnPRansac :: "Point3f list \<Rightarrow> Point2f list \<Rightarrow> Mat \<Rightarrow> real \<Rightarrow> real list \<times> real list \<times> int list"
  buildTransformation :: "real list \<Rightarrow> real list \<Rightarrow> Transform"
  std_sort :: "(int \<times> real \<Rightarrow> int \<times> real \<Rightarrow> bool) \<Rightarrow> (int \<times> real) list \<Rightarrow> (int \<times> real) list"
  draw_basis :: "Mat \<Rightarrow> int \<Rightarrow> Mat"
  project :: "Mat \<Rightarrow> Mat \<Rightarrow> real list"
  hash_match :: "real list \<Rightarrow> real list \<Rightarrow> real"

text \<open>
  The C++ code has no \<open>throw\<close>, \<open>exit\<close> or \<open>abort\<close>. The one way a call can fail to return
  a value is undefined behaviour: \<open>operator[]\<close> of a \<open>vector\<close> or \<open>string\<close> outside its
  range. The model makes that a result of its own.
\<close>
datatype error = OutOfRange

subsection \<open>Helpers of the standard library\<close>

text \<open>\<open>v[i]\<close> for a \<open>std::vector\<close> and an \<open>int\<close> index.\<close>
definition vec_at :: "'a list \<Rightarrow> int \<Rightarrow> 'a option" where
  "vec_at v i = (if 0 \<le> i \<and> i < int (length v) then Some (v ! nat i) else None)"

text \<open>Conversion of an \<open>int\<close> to \<open>size_t\<close> (64 bit).\<close>
definition to_size_t :: "int \<Rightarrow> nat" where
  "to_size_t i = nat (i mod 2 ^ 64)"

definition digit_char :: "nat \<Rightarrow> char" where
  "digit_char d = char_of (48 + d)"

fun digits :: "nat \<Rightarrow> string" where
  "digits n = (if n < 10 then [digit_char n] else digits (n div 10) @ [digit_char (n mod 10)])"

declare digits.simps [simp del]

text \<open>\<open>boost::lexical_cast<string>\<close> of an \<open>int\<close>: decimal, with a minus sign.\<close>
definition lexical_cast :: "int \<Rightarrow> string" where
  "lexical_cast i = (if i < 0 then CHR ''-'' # digits (nat (- i)) else digits (nat i))"

text \<open>\<open>cv::sum\<close> of a single-channel matrix: channel 0 holds the sum of all entries.\<close>
definition cv_sum :: "Mat \<Rightarrow> real" where
  "cv_sum M = sum_list (concat M)"

text \<open>
  Modelled from the spec: \<open>haloc::Utils::sortByMatching\<close> (\<open>utils.h\<close>) is not among the
  sources. The spec has the candidates sorted ascending by dissimilarity score, best
  first; the predicate handed to \<open>std::sort\<close> is then "less than" on the score.
\<close>
definition sortByMatching :: "int \<times> real \<Rightarrow> int \<times> real \<Rightarrow> bool" where
  "sortByMatching d1 d2 = (snd d1 < snd d2)"

text \<open>
  Modelled from the spec: the members of \<open>haloc::Hash\<close> that \<open>getLoopClosure\<close> calls.
\<close>
definition isInitialized :: "Hash \<Rightarrow> bool" where
  "isInitialized h = initialized h"

definition Hash_init :: "Toolkit \<Rightarrow> int \<Rightarrow> Hash \<Rightarrow> Mat \<Rightarrow> bool \<Rightarrow> Hash" where
  "Hash_init tk n_proj h desc orthogonal = h\<lparr>initialized := True, basis := draw_basis tk desc n_proj\<rparr>"

definition getHash :: "Toolkit \<Rightarrow> Hash \<Rightarrow> Mat \<Rightarrow> real list" where
  "getHash tk h desc = project tk (basis h) desc"

definition match :: "Toolkit \<Rightarrow> real list \<Rightarrow> real list \<Rightarrow> real" where
  "match tk h1 h2 = hash_match tk h1 h2"

subsection \<open>\<open>setNode\<close>\<close>

definition yml :: "LoopClosure \<Rightarrow> int \<Rightarrow> string" where
  "yml lc i = work_dir (params lc) @ ''/'' @ lexical_cast i @ ''.yml''"

text \<open>
  The argument \<open>im\<close> is what \<open>img_.setMono(img)\<close> (or \<open>setStereo\<close>) leaves in \<open>img_\<close>: the
  feature extraction of \<open>haloc::Image\<close> is outside \<open>lc.cpp\<close>. The mono version writes an
  empty list under \<open>threed\<close>.
\<close>
definition setNode :: "LoopClosure \<Rightarrow> FileSystem \<Rightarrow> Image \<Rightarrow> string \<Rightarrow> LoopClosure \<times> FileSystem" where
  "setNode lc files im name =
     (let lc1 = lc\<lparr>img := im\<rparr>;
          files1 = files(yml lc1 (img_idx lc1) \<mapsto>
                     \<lparr>node_name = name, node_kp = getKp (img lc1), node_desc = getDesc (img lc1), node_threed = []\<rparr>)
      in (lc1\<lparr>img_idx := img_idx lc1 + 1\<rparr>, files1))"

definition setNode_stereo :: "LoopClosure \<Rightarrow> FileSystem \<Rightarrow> Image \<Rightarrow> string \<Rightarrow> LoopClosure \<times> FileSystem" where
  "setNode_stereo lc files im name =
     (let lc1 = lc\<lparr>img := im\<rparr>;
          files1 = files(yml lc1 (img_idx lc1) \<mapsto>
                     \<lparr>node_name = name, node_kp = getKp (img lc1), node_desc = getDesc (img lc1), node_threed = get3D (img lc1)\<rparr>)
      in (lc1\<lparr>img_idx := img_idx lc1 + 1\<rparr>, files1))"

subsection \<open>\<open>compute\<close>\<close>

text \<open>The loop that collects the matched keypoints of both images.\<close>
fun matched_points :: "Point2f list \<Rightarrow> Point2f list \<Rightarrow> DMatch list \<Rightarrow> (Point2f list \<times> Point2f list) option" where
  "matched_points ref_kp cur_kp [] = Some ([], [])"
| "matched_points ref_kp cur_kp (m # ms) =
     (case (vec_at ref_kp (queryIdx m), vec_at cur_kp (trainIdx m)) of
        (Some r, Some c) \<Rightarrow>
          (case matched_points ref_kp cur_kp ms of
             Some (rs, cs) \<Rightarrow> Some (r # rs, c # cs)
           | None \<Rightarrow> None)
      | _ \<Rightarrow> None)"

text \<open>
  The result is \<open>(return value, lc_name, matches, inliers, trans)\<close>. When the file is not
  there the function returns \<open>false\<close> before it reads anything. \<open>ROS_ERROR\<close> only logs.
\<close>
definition compute :: "Toolkit \<Rightarrow> LoopClosure \<Rightarrow> FileSystem \<Rightarrow> Image \<Rightarrow> string \<Rightarrow> string \<Rightarrow> Transform
    \<Rightarrow> error + (bool \<times> string \<times> int \<times> int \<times> Transform)" where
  "compute tk lc files ref_image cur_filename lc_name tr =
     (case files cur_filename of
        None \<Rightarrow> Inr (False, lc_name, 0, 0, tr)
      | Some node \<Rightarrow>
         (let lc_name1 = node_name node;
              cur_kp = node_kp node;
              cur_desc = node_desc node;
              points_3d = node_threed node;
              desc_matches = crossCheckThresholdMatching tk (getDesc ref_image) cur_desc (desc_thresh (params lc));
              matches = int (length desc_matches)
          in if matches < min_matches (params lc) then Inr (False, lc_name1, matches, 0, tr)
             else
              (case matched_points (getKp ref_image) cur_kp desc_matches of
                 None \<Rightarrow> Inl OutOfRange
               | Some (ref_points, cur_points) \<Rightarrow>
                  if length points_3d = 0 then
                    (let (F, status) = findFundamentalMat tk ref_points cur_points (epipolar_thresh (params lc));
                         f_sum = cv_sum F + 0 + 0
                     in if f_sum < 1 / 1000 then Inr (False, lc_name1, matches, 0, tr)
                        else
                         (let inliers = sum_list status
                          in if inliers < min_inliers (params lc) then Inr (False, lc_name1, matches, inliers, tr)
                             else Inr (True, lc_name1, matches, inliers, tr)))
                  else
                    (let (rvec, tvec, solvepnp_inliers) =
                           solvePnPRansac tk points_3d cur_points (camera_matrix lc) (max_reproj_err (params lc));
                         inliers = int (length solvepnp_inliers)
                     in if inliers < min_inliers (params lc) then Inr (False, lc_name1, matches, inliers, tr)
                        else Inr (True, lc_name1, matches, inliers, buildTransformation tk rvec tvec)))))"

subsection \<open>\<open>getLoopClosure\<close>\<close>

text \<open>
  The block "Validate the loop closure?" of the candidate loop: the verification against
  the file of the previous index and, when that fails, against the file of the next index.
  \<open>tmp_name\<close> starts empty; \<open>trans_val\<close> is an uninitialised local of the C++ code, so
  its content is a parameter here. \<open>matches_val\<close>, \<open>inliers_val\<close>, \<open>tmp_name\<close> and
  \<open>trans_val\<close> are locals of the block: only \<open>validate_valid\<close> leaves it.
\<close>
definition validation :: "Toolkit \<Rightarrow> LoopClosure \<Rightarrow> FileSystem \<Rightarrow> Transform \<Rightarrow> int \<Rightarrow> error + bool" where
  "validation tk lc files trans_val first =
     (case compute tk lc files (img lc) (yml lc (first - 1)) [] trans_val of
        Inl e \<Rightarrow> Inl e
      | Inr (validate_valid, tmp_name, matches_val, inliers_val, trans_val1) \<Rightarrow>
          if \<not> validate_valid then
            (case compute tk lc files (img lc) (yml lc (first + 1)) tmp_name trans_val1 of
               Inl e \<Rightarrow> Inl e
             | Inr (validate_valid2, tmp_name2, matches_val2, inliers_val2, trans_val2) \<Rightarrow> Inr validate_valid2)
          else Inr validate_valid)"

text \<open>
  The \<open>while\<close> loop over the sorted candidates. The state is \<open>(best_m, valid, lc_name,
  trans)\<close>; \<open>matches\<close> and \<open>inliers\<close> are written by \<open>compute\<close> and never read.
  \<open>best_m\<close> starts at 0 and only grows, so it is a natural number here.
\<close>
function candidate_loop :: "Toolkit \<Rightarrow> LoopClosure \<Rightarrow> FileSystem \<Rightarrow> Transform \<Rightarrow> (int \<times> real) list
    \<Rightarrow> nat \<Rightarrow> bool \<Rightarrow> string \<Rightarrow> Transform \<Rightarrow> error + (nat \<times> bool \<times> string \<times> Transform)" where
  "candidate_loop tk lc files trans_val matchings best_m valid lc_name tr =
     (if \<not> int best_m < n_candidates (params lc) then Inr (best_m, valid, lc_name, tr)
      else if best_m \<ge> length matchings then Inr (0, valid, lc_name, tr)
      else
        (case compute tk lc files (img lc) (yml lc (fst (matchings ! best_m))) lc_name tr of
           Inl e \<Rightarrow> Inl e
         | Inr (valid1, lc_name1, matches, inliers, tr1) \<Rightarrow>
             if valid1 \<and> \<not> validate (params lc) then Inr (best_m, valid1, lc_name1, tr1)
             else if valid1 \<and> validate (params lc) then
               (case validation tk lc files trans_val (fst (matchings ! best_m)) of
                  Inl e \<Rightarrow> Inl e
                | Inr validate_valid \<Rightarrow>
                    if validate_valid then Inr (best_m, valid1, lc_name1, tr1)
                    else candidate_loop tk lc files trans_val matchings (Suc best_m) False lc_name1 tr1)
             else candidate_loop tk lc files trans_val matchings (Suc best_m) valid1 lc_name1 tr1))"
  by pat_completeness auto
termination
  by (relation "measure (\<lambda>(tk, lc, files, trans_val, matchings, best_m, valid, lc_name, tr). length matchings - best_m)") auto

declare candidate_loop.simps [simp del]

text \<open>
  The \<open>for\<close> loop that scores the first \<open>hash_table_.size() - min_neighbour\<close> entries of
  the table. The subtraction is one of \<open>size_t\<close> values; it is only reached when the size is
  larger than the converted \<open>min_neighbour\<close>. The counter \<open>i\<close> is an \<open>unsigned int\<close>: a table
  of 2^32 entries or more is outside the model.
\<close>
definition hash_matchings :: "Toolkit \<Rightarrow> LoopClosure \<Rightarrow> real list \<Rightarrow> (int \<times> real) list" where
  "hash_matchings tk lc hash_val =
     map (\<lambda>entry. (fst entry, match tk hash_val (snd entry)))
       (take (length (hash_table lc) - to_size_t (min_neighbour (params lc))) (hash_table lc))"

text \<open>
  The result is \<open>(return value, lc_img_idx, lc_name, trans)\<close> and the object after the
  call. \<open>lc_img_idx\<close>, \<open>lc_name\<close> and \<open>tr\<close> are the values the caller's variables hold
  when the call is made.
\<close>
definition getLoopClosure :: "Toolkit \<Rightarrow> Transform \<Rightarrow> LoopClosure \<Rightarrow> FileSystem \<Rightarrow> int \<Rightarrow> string \<Rightarrow> Transform
    \<Rightarrow> error + ((bool \<times> int \<times> string \<times> Transform) \<times> LoopClosure)" where
  "getLoopClosure tk trans_val lc files lc_img_idx lc_name tr =
     (if \<not> isInitialized (hash lc) then
        Inr ((False, lc_img_idx, lc_name, tr),
             lc\<lparr>hash := Hash_init tk (num_proj (params lc)) (hash lc) (getDesc (img lc)) True\<rparr>)
      else
        (let hash_val = getHash tk (hash lc) (getDesc (img lc));
             lc1 = lc\<lparr>hash_table := hash_table lc @ [(img_idx lc - 1, hash_val)]\<rparr>
         in if length (hash_table lc1) \<le> to_size_t (min_neighbour (params lc1)) then
              Inr ((False, lc_img_idx, lc_name, tr), lc1)
            else
              (let matchings = std_sort tk sortByMatching (hash_matchings tk lc1 hash_val)
               in case candidate_loop tk lc1 files trans_val matchings 0 False [] identity_tf of
                    Inl e \<Rightarrow> Inl e
                  | Inr (best_m, valid, lc_name1, tr1) \<Rightarrow>
                      if valid \<and> best_m < length matchings
                      then Inr ((valid, fst (matchings ! best_m), lc_name1, tr1), lc1)
                      else Inr ((valid, - 1, [], tr1), lc1))))"

subsection \<open>A session: constructor, \<open>setParams\<close>, \<open>init\<close>, then one \<open>setNode\<close> and one
  \<open>getLoopClosure\<close> per observation\<close>

text \<open>
  Modelled from the spec: the constructor of \<open>haloc::Hash\<close> is not among the sources;
  the spec's state machine starts in the state where the hash is not initialized. The
  definition is the object after the constructor of \<open>LoopClosure\<close>, which is empty, and
  \<open>setParams\<close>.
\<close>
definition new_LoopClosure :: "Params \<Rightarrow> LoopClosure" where
  "new_LoopClosure P =
     \<lparr>params = P, img = \<lparr>getKp = [], getDesc = [], get3D = []\<rparr>,
      hash = \<lparr>initialized = False, basis = []\<rparr>, camera_matrix = [],
      hash_table = [], img_idx = 0\<rparr>"

text \<open>
  \<open>init\<close>: \<open>now\<close> is the value of \<open>time(0)\<close>. The directory is removed with all its files
  and created again. The parameters handed on to \<open>img_\<close> and \<open>hash_\<close> are read from
  \<open>params\<close> where the model needs them.
\<close>
definition init :: "int \<Rightarrow> LoopClosure \<Rightarrow> FileSystem \<Rightarrow> error + (LoopClosure \<times> FileSystem)" where
  "init now lc files =
     (let wd = work_dir (params lc)
      in case vec_at wd (int (length wd) - 1) of
           None \<Rightarrow> Inl OutOfRange
         | Some c \<Rightarrow>
            (let wd1 = (if c \<noteq> CHR ''/'' then wd @ ''/ex_'' @ lexical_cast now
                        else wd @ ''ex_'' @ lexical_cast now);
                 files1 = (\<lambda>p. if take (length wd1 + 1) p = wd1 @ ''/'' then None else files p)
             in Inr (lc\<lparr>params := (params lc)\<lparr>work_dir := wd1\<rparr>, hash_table := [], img_idx := 0\<rparr>, files1)))"

datatype observation = Mono Image string | Stereo Image string

fun ingest :: "LoopClosure \<Rightarrow> FileSystem \<Rightarrow> observation \<Rightarrow> LoopClosure \<times> FileSystem" where
  "ingest lc files (Mono im name) = setNode lc files im name"
| "ingest lc files (Stereo im name) = setNode_stereo lc files im name"

text \<open>
  An observation history: for each observation the caller calls \<open>setNode\<close> and then
  \<open>getLoopClosure\<close>, as \<open>examples/mono.cpp\<close> does. The result is the object and the files
  after the last observation.
\<close>
fun run :: "Toolkit \<Rightarrow> Transform \<Rightarrow> LoopClosure \<times> FileSystem \<Rightarrow> observation list
    \<Rightarrow> error + (LoopClosure \<times> FileSystem)" where
  "run tk trans_val s [] = Inr s"
| "run tk trans_val s (ob # obs) =
     (let (lc1, files1) = ingest (fst s) (snd s) ob
      in case getLoopClosure tk trans_val lc1 files1 (- 1) [] identity_tf of
           Inl e \<Rightarrow> Inl e
         | Inr (res, lc2) \<Rightarrow> run tk trans_val (lc2, files1) obs)"

definition session :: "Toolkit \<Rightarrow> Transform \<Rightarrow> int \<Rightarrow> Params \<Rightarrow> FileSystem \<Rightarrow> observation list
    \<Rightarrow> error + (LoopClosure \<times> FileSystem)" where
  "session tk trans_val now P files obs =
     (case init now (new_LoopClosure P) files of
        Inl e \<Rightarrow> Inl e
      | Inr s \<Rightarrow> run tk trans_val s obs)"

subsection \<open>What the C++ standard promises of \<open>std::sort\<close>\<close>

text \<open>
  \<open>std::sort\<close> leaves a permutation of its input in which no element is ordered, by the
  predicate, before one of its predecessors. The order of elements that the predicate
  does not separate is not specified (that is \<open>std::stable_sort\<close>).
\<close>
definition sort_post :: "('a \<Rightarrow> 'a \<Rightarrow> bool) \<Rightarrow> 'a list \<Rightarrow> 'a list \<Rightarrow> bool" where
  "sort_post lt xs ys = (mset ys = mset xs \<and> sorted_wrt (\<lambda>a b. \<not> lt b a) ys)"

definition std_sort_conforms :: "Toolkit \<Rightarrow> bool" where
  "std_sort_conforms tk = (\<forall>xs. sort_post sortByMatching xs (std_sort tk sortByMatching xs))"

text \<open>
  Ascending by score with ties broken by the earlier index: what a stable sort of the
  table, which is in order of index, would give.
\<close>
definition stable_ranking :: "(int \<times> real) list \<Rightarrow> bool" where
  "stable_ranking ys = sorted_wrt (\<lambda>a b. snd a < snd b \<or> (snd a = snd b \<and> fst a < fst b)) ys"

subsection \<open>An example toolkit and an example session\<close>

text \<open>
  A small instance of every external function, to run the model on: descriptors match
  row by row when they are equal, the fundamental matrix is never degenerate and every
  match is an inlier, the pose is the first 3-D point, the hash is the sum of the
  descriptor entries and the dissimilarity of two hashes their L1 distance. The sorting
  function is an insertion sort that puts an element in front of the elements it ties
  with.
\<close>
fun row_matches :: "int \<Rightarrow> Mat \<Rightarrow> Mat \<Rightarrow> DMatch list" where
  "row_matches i (a # as) (b # bs) =
     (if a = b then \<lparr>queryIdx = i, trainIdx = i, distance = 0\<rparr> # row_matches (i + 1) as bs
      else row_matches (i + 1) as bs)"
| "row_matches i _ _ = []"

fun insert_before :: "('a \<Rightarrow> 'a \<Rightarrow> bool) \<Rightarrow> 'a \<Rightarrow> 'a list \<Rightarrow> 'a list" where
  "insert_before lt x [] = [x]"
| "insert_before lt x (y # ys) = (if lt y x then y # insert_before lt x ys else x # y # ys)"

definition l1 :: "real list \<Rightarrow> real list \<Rightarrow> real" where
  "l1 h1 h2 = sum_list (map2 (\<lambda>a b. \<bar>a - b\<bar>) h1 h2)"

definition tk0 :: Toolkit where
  "tk0 = \<lparr>crossCheckThresholdMatching = (\<lambda>a b th. row_matches 0 a b),
          findFundamentalMat = (\<lambda>ref cur th. ([[1]], map (\<lambda>p. 1) ref)),
          solvePnPRansac = (\<lambda>p3 cur cam err.
             ([0, 0, 0], (case p3 of [] \<Rightarrow> [] | (x, y, z) # ps \<Rightarrow> [x, y, z]), map (\<lambda>p. 0) cur)),
          buildTransformation = (\<lambda>rvec tvec. (fst identity_tf, tvec)),
          std_sort = (\<lambda>lt xs. foldr (insert_before lt) xs []),
          draw_basis = (\<lambda>desc n. []),
          project = (\<lambda>b desc. [sum_list (concat desc)]),
          hash_match = l1\<rparr>"

definition P0 :: Params where
  "P0 = \<lparr>work_dir = ''w'', desc_type = ''SIFT'', num_proj = 1, desc_thresh = 1, epipolar_thresh = 1,
          min_neighbour = 1, n_candidates = 4, min_matches = 1, min_inliers = 1, max_reproj_err = 1,
          validate = True\<rparr>"

definition kp2 :: "Point2f list" where
  "kp2 = [(0, 0), (1, 1)]"

text \<open>
  Six observations, indices 0 to 5. The last one has the descriptors of observation 3
  and shares one descriptor with observations 0 and 1.
\<close>
definition obs0 :: "observation list" where
  "obs0 = [Stereo \<lparr>getKp = kp2, getDesc = [[1], [0]], get3D = [(7, 7, 7), (7, 7, 7)]\<rparr> ''n0'',
           Stereo \<lparr>getKp = kp2, getDesc = [[1], [7]], get3D = [(1, 2, 3), (4, 5, 6)]\<rparr> ''n1'',
           Mono \<lparr>getKp = kp2, getDesc = [[8], [8]], get3D = []\<rparr> ''n2'',
           Mono \<lparr>getKp = kp2, getDesc = [[1], [2]], get3D = []\<rparr> ''n3'',
           Mono \<lparr>getKp = kp2, getDesc = [[9], [9]], get3D = []\<rparr> ''n4'']"

definition ob5 :: observation where
  "ob5 = Mono \<lparr>getKp = kp2, getDesc = [[1], [2]], get3D = []\<rparr> ''n5''"

text \<open>
  The object and the files of the example when \<open>getLoopClosure\<close> is called for
  observation 5 (after its \<open>setNode\<close>), written out; \<open>example_session\<close> below shows that
  the session arrives there.
\<close>
definition files5 :: FileSystem where
  "files5 = [''w/ex_7/0.yml'' \<mapsto> \<lparr>node_name = ''n0'', node_kp = kp2, node_desc = [[1], [0]], node_threed = [(7, 7, 7), (7, 7, 7)]\<rparr>,
             ''w/ex_7/1.yml'' \<mapsto> \<lparr>node_name = ''n1'', node_kp = kp2, node_desc = [[1], [7]], node_threed = [(1, 2, 3), (4, 5, 6)]\<rparr>,
             ''w/ex_7/2.yml'' \<mapsto> \<lparr>node_name = ''n2'', node_kp = kp2, node_desc = [[8], [8]], node_threed = []\<rparr>,
             ''w/ex_7/3.yml'' \<mapsto> \<lparr>node_name = ''n3'', node_kp = kp2, node_desc = [[1], [2]], node_threed = []\<rparr>,
             ''w/ex_7/4.yml'' \<mapsto> \<lparr>node_name = ''n4'', node_kp = kp2, node_desc = [[9], [9]], node_threed = []\<rparr>,
             ''w/ex_7/5.yml'' \<mapsto> \<lparr>node_name = ''n5'', node_kp = kp2, node_desc = [[1], [2]], node_threed = []\<rparr>]"

definition lc5 :: LoopClosure where
  "lc5 = \<lparr>params = P0\<lparr>work_dir := ''w/ex_7''\<rparr>,
          img = \<lparr>getKp = kp2, getDesc = [[1], [2]], get3D = []\<rparr>,
          hash = \<lparr>initialized = True, basis = []\<rparr>, camera_matrix = [],
          hash_table = [(1, [8]), (2, [16]), (3, [3]), (4, [18])], img_idx = 6\<rparr>"

fun obs_image :: "observation \<Rightarrow> Image" where
  "obs_image (Mono im name) = im"
| "obs_image (Stereo im name) = im"

text \<open>The object of the example after \<open>init\<close> at time 7, before the first observation.\<close>
definition lcA :: LoopClosure where
  "lcA = (new_LoopClosure P0)\<lparr>params := P0\<lparr>work_dir := ''w/ex_7''\<rparr>\<rparr>"

text \<open>The example at observation 5 with \<open>min_neighbour = 5\<close>.\<close>
definition lc5_gap5 :: LoopClosure where
  "lc5_gap5 = lc5\<lparr>params := (params lc5)\<lparr>min_neighbour := 5\<rparr>\<rparr>"

text \<open>The object of the example once \<open>getLoopClosure\<close> has appended the entry of observation 5.\<close>
definition lc5a :: LoopClosure where
  "lc5a = lc5\<lparr>hash_table := hash_table lc5 @ [(5, [3])]\<rparr>"

text \<open>
  The example at observation 5 with the second validation step switched off, and the
  files of the example with the file of observation 3 removed.
\<close>
definition lc5_plain :: LoopClosure where
  "lc5_plain = lc5\<lparr>params := (params lc5)\<lparr>validate := False\<rparr>\<rparr>"

definition lc5a_plain :: LoopClosure where
  "lc5a_plain = lc5_plain\<lparr>hash_table := hash_table lc5_plain @ [(5, [3])]\<rparr>"

definition files5_missing3 :: FileSystem where
  "files5_missing3 = files5(''w/ex_7/3.yml'' := None)"

text \<open>
  The object and the files of the example after the first five observations, before the
  \<open>setNode\<close> of observation 5.
\<close>
definition files4 :: FileSystem where
  "files4 = [''w/ex_7/0.yml'' \<mapsto> \<lparr>node_name = ''n0'', node_kp = kp2, node_desc = [[1], [0]], node_threed = [(7, 7, 7), (7, 7, 7)]\<rparr>,
             ''w/ex_7/1.yml'' \<mapsto> \<lparr>node_name = ''n1'', node_kp = kp2, node_desc = [[1], [7]], node_threed = [(1, 2, 3), (4, 5, 6)]\<rparr>,
             ''w/ex_7/2.yml'' \<mapsto> \<lparr>node_name = ''n2'', node_kp = kp2, node_desc = [[8], [8]], node_threed = []\<rparr>,
             ''w/ex_7/3.yml'' \<mapsto> \<lparr>node_name = ''n3'', node_kp = kp2, node_desc = [[1], [2]], node_threed = []\<rparr>,
             ''w/ex_7/4.yml'' \<mapsto> \<lparr>node_name = ''n4'', node_kp = kp2, node_desc = [[9], [9]], node_threed = []\<rparr>]"

definition lc4 :: LoopClosure where
  "lc4 = \<lparr>params = P0\<lparr>work_dir := ''w/ex_7''\<rparr>,
          img = \<lparr>getKp = kp2, getDesc = [[9], [9]], get3D = []\<rparr>,
          hash = \<lparr>initialized = True, basis = []\<rparr>, camera_matrix = [],
          hash_table = [(1, [8]), (2, [16]), (3, [3]), (4, [18])], img_idx = 5\<rparr>"

text \<open>
  What holds of the table between two observations of a session: before the bootstrap it
  is empty and no observation has been stored; afterwards it holds one entry for each of
  the observations 1, 2, ... stored so far, in this order.
\<close>
definition table_inv :: "LoopClosure \<Rightarrow> bool" where
  "table_inv lc =
     (if isInitialized (hash lc)
      then 1 \<le> img_idx lc \<and> map fst (hash_table lc) = map int [1..<nat (img_idx lc)]
      else hash_table lc = [] \<and> img_idx lc = 0)"

text \<open>
  A second example, in which the table has an entry for observation 0: the caller calls
  \<open>getLoopClosure\<close> once before the first \<open>setNode\<close> (which seeds the basis), then
  stores observations 0, 1 and 2. \<open>lc7\<close> and \<open>files7\<close> are the object and the files when
  \<open>getLoopClosure\<close> is called for observation 2, \<open>lc7a\<close> the object with the new entry.
\<close>
definition obs7 :: "observation list" where
  "obs7 = [Mono \<lparr>getKp = kp2, getDesc = [[1], [0]], get3D = []\<rparr> ''m0'',
           Mono \<lparr>getKp = kp2, getDesc = [[8], [8]], get3D = []\<rparr> ''m1'']"

definition ob7 :: observation where
  "ob7 = Mono \<lparr>getKp = kp2, getDesc = [[1], [0]], get3D = []\<rparr> ''m2''"

definition files7 :: FileSystem where
  "files7 = [''w/ex_7/0.yml'' \<mapsto> \<lparr>node_name = ''m0'', node_kp = kp2, node_desc = [[1], [0]], node_threed = []\<rparr>,
             ''w/ex_7/1.yml'' \<mapsto> \<lparr>node_name = ''m1'', node_kp = kp2, node_desc = [[8], [8]], node_threed = []\<rparr>,
             ''w/ex_7/2.yml'' \<mapsto> \<lparr>node_name = ''m2'', node_kp = kp2, node_desc = [[1], [0]], node_threed = []\<rparr>]"

definition lc7 :: LoopClosure where
  "lc7 = \<lparr>params = P0\<lparr>work_dir := ''w/ex_7''\<rparr>,
          img = \<lparr>getKp = kp2, getDesc = [[1], [0]], get3D = []\<rparr>,
          hash = \<lparr>initialized = True, basis = []\<rparr>, camera_matrix = [],
          hash_table = [(0, [1]), (1, [16])], img_idx = 3\<rparr>"

definition lc7a :: LoopClosure where
  "lc7a = lc7\<lparr>hash_table := hash_table lc7 @ [(2, [1])]\<rparr>"

text \<open>
  A third example: a session of four observations; \<open>lc8\<close> and \<open>files8\<close> are the object
  and the files when \<open>getLoopClosure\<close> is called for observation 3.
\<close>
definition obs8 :: "observation list" where
  "obs8 = [Stereo \<lparr>getKp = kp2, getDesc = [[0], [0]], get3D = [(7, 7, 7), (7, 7, 7)]\<rparr> ''s0'',
           Stereo \<lparr>getKp = kp2, getDesc = [[1], [7]], get3D = [(1, 2, 3), (4, 5, 6)]\<rparr> ''s1'',
           Mono \<lparr>getKp = kp2, getDesc = [[8], [8]], get3D = []\<rparr> ''s2'']"

definition ob8 :: observation where
  "ob8 = Mono \<lparr>getKp = kp2, getDesc = [[1], [2]], get3D = []\<rparr> ''s3''"

definition files8 :: FileSystem where
  "files8 = [''w/ex_7/0.yml'' \<mapsto> \<lparr>node_name = ''s0'', node_kp = kp2, node_desc = [[0], [0]], node_threed = [(7, 7, 7), (7, 7, 7)]\<rparr>,
             ''w/ex_7/1.yml'' \<mapsto> \<lparr>node_name = ''s1'', node_kp = kp2, node_desc = [[1], [7]], node_threed = [(1, 2, 3), (4, 5, 6)]\<rparr>,
             ''w/ex_7/2.yml'' \<mapsto> \<lparr>node_name = ''s2'', node_kp = kp2, node_desc = [[8], [8]], node_threed = []\<rparr>,
             ''w/ex_7/3.yml'' \<mapsto> \<lparr>node_name = ''s3'', node_kp = kp2, node_desc = [[1], [2]], node_threed = []\<rparr>]"

definition lc8 :: LoopClosure where
  "lc8 = \<lparr>params = P0\<lparr>work_dir := ''w/ex_7''\<rparr>,
          img = \<lparr>getKp = kp2, getDesc = [[1], [2]], get3D = []\<rparr>,
          hash = \<lparr>initialized = True, basis = []\<rparr>, camera_matrix = [],
          hash_table = [(1, [8]), (2, [16])], img_idx = 4\<rparr>"

subsection \<open>\<open>std::sort\<close> as the GNU C++ library implements it\<close>

text \<open>
  \<open>lc.cpp\<close> is built with GCC (the package is a ROS package) and so calls the
  \<open>std::sort\<close> of libstdc++ (\<open>bits/stl_algo.h\<close>): an introsort that partitions down to
  pieces of at most 16 elements, falls back on heap sort when its depth limit is used
  up, and finishes with an insertion sort. The array is a list, the iterators are
  positions in it.
\<close>

text \<open>
  \<open>std::iter_swap\<close> of two positions of the array. Every index that the functions below
  hand to it lies inside the array; the test makes the definition total.
\<close>
definition iter_swap :: "'a list \<Rightarrow> nat \<Rightarrow> nat \<Rightarrow> 'a list" where
  "iter_swap xs i j = (if i < length xs \<and> j < length xs then xs[i := xs ! j, j := xs ! i] else xs)"

text \<open>
  \<open>std::__lg\<close>: the position of the highest bit, the logarithm to base 2 rounded down.
\<close>
fun lg :: "nat \<Rightarrow> nat" where
  "lg n = (if n < 2 then 0 else Suc (lg (n div 2)))"

declare lg.simps [simp del]

text \<open>
  \<^verbatim>\<open>__move_median_to_first(result, a, b, c)\<close>:
  \<^verbatim>\<open>if (comp(a, b)) { if (comp(b, c)) iter_swap(result, b);
    else if (comp(a, c)) iter_swap(result, c); else iter_swap(result, a); }
  else if (comp(a, c)) iter_swap(result, a);
  else if (comp(b, c)) iter_swap(result, c); else iter_swap(result, b);\<close>
\<close>
definition move_median_to_first :: "('a \<Rightarrow> 'a \<Rightarrow> bool) \<Rightarrow> 'a list \<Rightarrow> nat \<Rightarrow> nat \<Rightarrow> nat \<Rightarrow> nat \<Rightarrow> 'a list" where
  "move_median_to_first lt xs result a b c =
     (if lt (xs ! a) (xs ! b) then
        (if lt (xs ! b) (xs ! c) then iter_swap xs result b
         else if lt (xs ! a) (xs ! c) then iter_swap xs result c
         else iter_swap xs result a)
      else if lt (xs ! a) (xs ! c) then iter_swap xs result a
      else if lt (xs ! b) (xs ! c) then iter_swap xs result c
      else iter_swap xs result b)"

text \<open>
  \<^verbatim>\<open>__unguarded_partition(first, last, pivot)\<close>:
  \<^verbatim>\<open>while (true) { while (comp(first, pivot)) ++first;
    --last; while (comp(pivot, last)) --last;
    if (!(first < last)) return first;
    iter_swap(first, last); ++first; }\<close>
  \<open>scan_up\<close> and \<open>scan_down\<close> are the two inner loops. The C++ loops have no bound of
  their own (the pivot, the median of three, stops them); here they also stop at the ends
  of the array.
\<close>
function scan_up :: "('a \<Rightarrow> 'a \<Rightarrow> bool) \<Rightarrow> 'a list \<Rightarrow> nat \<Rightarrow> nat \<Rightarrow> nat" where
  "scan_up lt xs first pivot =
     (if first < length xs \<and> lt (xs ! first) (xs ! pivot) then scan_up lt xs (Suc first) pivot else first)"
  by pat_completeness auto
termination
  by (relation "measure (\<lambda>(lt, xs, first, pivot). length xs - first)") auto

declare scan_up.simps [simp del]

function scan_down :: "('a \<Rightarrow> 'a \<Rightarrow> bool) \<Rightarrow> 'a list \<Rightarrow> nat \<Rightarrow> nat \<Rightarrow> nat" where
  "scan_down lt xs lst pivot =
     (if 0 < lst \<and> lt (xs ! pivot) (xs ! lst) then scan_down lt xs (lst - 1) pivot else lst)"
  by pat_completeness auto
termination
  by (relation "measure (\<lambda>(lt, xs, lst, pivot). lst)") auto

declare scan_down.simps [simp del]

function unguarded_partition :: "('a \<Rightarrow> 'a \<Rightarrow> bool) \<Rightarrow> 'a list \<Rightarrow> nat \<Rightarrow> nat \<Rightarrow> nat \<Rightarrow> 'a list \<times> nat" where
  "unguarded_partition lt xs first lst pivot =
     (let first1 = scan_up lt xs first pivot;
          lst1 = scan_down lt xs (lst - 1) pivot
      in if \<not> first1 < lst1 then (xs, first1)
         else unguarded_partition lt (iter_swap xs first1 lst1) (Suc first1) lst1 pivot)"
  by pat_completeness auto
termination
proof (relation "measure (\<lambda>(lt, xs, first, lst, pivot). lst - first)")
  show "wf (measure (\<lambda>(lt, xs, first, lst, pivot). lst - first))" by simp
next
  fix lt :: "'a \<Rightarrow> 'a \<Rightarrow> bool" and xs :: "'a list" and first lst pivot first1 lst1 :: nat
  assume a: "first1 = scan_up lt xs first pivot" "lst1 = scan_down lt xs (lst - 1) pivot"
    and b: "\<not> \<not> first1 < lst1"
  have up: "f \<le> scan_up lt xs f pivot" for f
    by (induction lt xs f pivot rule: scan_up.induct) (subst scan_up.simps, auto)
  have down: "scan_down lt xs l pivot \<le> l" for l
    by (induction lt xs l pivot rule: scan_down.induct) (subst scan_down.simps, auto)
  from a up[of first] down[of "lst - 1"] b
  show "((lt, iter_swap xs first1 lst1, Suc first1, lst1, pivot), (lt, xs, first, lst, pivot))
        \<in> measure (\<lambda>(lt, xs, first, lst, pivot). lst - first)"
    by auto
qed

declare unguarded_partition.simps [simp del]

text \<open>
  \<^verbatim>\<open>__unguarded_partition_pivot(first, last)\<close>:
  \<^verbatim>\<open>mid = first + (last - first) / 2;
  __move_median_to_first(first, first + 1, mid, last - 1);
  return __unguarded_partition(first + 1, last, first);\<close>
\<close>
definition unguarded_partition_pivot :: "('a \<Rightarrow> 'a \<Rightarrow> bool) \<Rightarrow> 'a list \<Rightarrow> nat \<Rightarrow> nat \<Rightarrow> 'a list \<times> nat" where
  "unguarded_partition_pivot lt xs first lst =
     (let mid = first + (lst - first) div 2;
          xs1 = move_median_to_first lt xs first (first + 1) mid (lst - 1)
      in unguarded_partition lt xs1 (first + 1) lst first)"

text \<open>
  The heap functions of \<open>bits/stl_heap.h\<close>, which \<open>std::sort\<close> falls back on when the
  depth limit is used up. The C++ code keeps the element on the move in a variable
  \<open>value\<close> and shifts the others into the hole it leaves; here the element on the move
  sits in the hole and every shift is a swap with the hole, which gives the same array
  when \<open>value\<close> is finally stored into the hole.
  \<^verbatim>\<open>__push_heap(first, holeIndex, topIndex, value)\<close>:
  \<^verbatim>\<open>parent = (holeIndex - 1) / 2;
  while (holeIndex > topIndex && comp(first + parent, value)) {
    *(first + holeIndex) = *(first + parent);
    holeIndex = parent; parent = (holeIndex - 1) / 2; }
  *(first + holeIndex) = value;\<close>
\<close>
function push_heap :: "('a \<Rightarrow> 'a \<Rightarrow> bool) \<Rightarrow> 'a list \<Rightarrow> nat \<Rightarrow> nat \<Rightarrow> nat \<Rightarrow> 'a list" where
  "push_heap lt xs first holeIndex topIndex =
     (let parent = (holeIndex - 1) div 2
      in if holeIndex > topIndex \<and> lt (xs ! (first + parent)) (xs ! (first + holeIndex))
         then push_heap lt (iter_swap xs (first + holeIndex) (first + parent)) first parent topIndex
         else xs)"
  by pat_completeness auto
termination
  by (relation "measure (\<lambda>(lt, xs, first, holeIndex, topIndex). holeIndex)") auto

declare push_heap.simps [simp del]

text \<open>
  \<^verbatim>\<open>__adjust_heap(first, holeIndex, len, value)\<close>:
  \<^verbatim>\<open>topIndex = holeIndex; secondChild = holeIndex;
  while (secondChild < (len - 1) / 2) {
    secondChild = 2 * (secondChild + 1);
    if (comp(first + secondChild, first + (secondChild - 1))) secondChild--;
    *(first + holeIndex) = *(first + secondChild);
    holeIndex = secondChild; }
  if ((len & 1) == 0 && secondChild == (len - 2) / 2) {
    secondChild = 2 * (secondChild + 1);
    *(first + holeIndex) = *(first + (secondChild - 1));
    holeIndex = secondChild - 1; }
  __push_heap(first, holeIndex, topIndex, value);\<close>
  \<open>adjust_down\<close> is the \<open>while\<close> loop; \<open>holeIndex\<close> and \<open>secondChild\<close> are equal
  whenever its condition is tested.
\<close>
function adjust_down :: "('a \<Rightarrow> 'a \<Rightarrow> bool) \<Rightarrow> 'a list \<Rightarrow> nat \<Rightarrow> nat \<Rightarrow> nat \<Rightarrow> 'a list \<times> nat" where
  "adjust_down lt xs first holeIndex len =
     (if holeIndex < (len - 1) div 2 then
        (let secondChild = 2 * (holeIndex + 1);
             secondChild1 = (if lt (xs ! (first + secondChild)) (xs ! (first + (secondChild - 1)))
                             then secondChild - 1 else secondChild)
         in adjust_down lt (iter_swap xs (first + holeIndex) (first + secondChild1)) first secondChild1 len)
      else (xs, holeIndex))"
  by pat_completeness auto
termination
  by (relation "measure (\<lambda>(lt, xs, first, holeIndex, len). len - holeIndex)") auto

declare adjust_down.simps [simp del]

definition adjust_heap :: "('a \<Rightarrow> 'a \<Rightarrow> bool) \<Rightarrow> 'a list \<Rightarrow> nat \<Rightarrow> nat \<Rightarrow> nat \<Rightarrow> 'a list" where
  "adjust_heap lt xs first holeIndex len =
     (let (xs1, hole1) = adjust_down lt xs first holeIndex len;
          (xs2, hole2) =
            (if even len \<and> hole1 = (len - 2) div 2
             then (iter_swap xs1 (first + hole1) (first + (2 * (hole1 + 1) - 1)), 2 * (hole1 + 1) - 1)
             else (xs1, hole1))
      in push_heap lt xs2 first hole2 holeIndex)"

text \<open>
  \<^verbatim>\<open>__make_heap(first, last)\<close>:
  \<^verbatim>\<open>if (last - first < 2) return;
  len = last - first; parent = (len - 2) / 2;
  while (true) { value = *(first + parent);
    __adjust_heap(first, parent, len, value);
    if (parent == 0) return; parent--; }\<close>
\<close>
fun make_heap_loop :: "('a \<Rightarrow> 'a \<Rightarrow> bool) \<Rightarrow> 'a list \<Rightarrow> nat \<Rightarrow> nat \<Rightarrow> nat \<Rightarrow> 'a list" where
  "make_heap_loop lt xs first len 0 = adjust_heap lt xs first 0 len"
| "make_heap_loop lt xs first len (Suc parent) =
     make_heap_loop lt (adjust_heap lt xs first (Suc parent) len) first len parent"

definition make_heap :: "('a \<Rightarrow> 'a \<Rightarrow> bool) \<Rightarrow> 'a list \<Rightarrow> nat \<Rightarrow> nat \<Rightarrow> 'a list" where
  "make_heap lt xs first lst =
     (if lst - first < 2 then xs
      else make_heap_loop lt xs first (lst - first) ((lst - first - 2) div 2))"

text \<open>
  \<^verbatim>\<open>__pop_heap(first, last, result)\<close>:
  \<^verbatim>\<open>value = *result; *result = *first; __adjust_heap(first, 0, last - first, value);\<close>
  \<^verbatim>\<open>__sort_heap(first, last)\<close>:
  \<^verbatim>\<open>while (last - first > 1) { --last; __pop_heap(first, last, last); }\<close>
\<close>
definition pop_heap :: "('a \<Rightarrow> 'a \<Rightarrow> bool) \<Rightarrow> 'a list \<Rightarrow> nat \<Rightarrow> nat \<Rightarrow> nat \<Rightarrow> 'a list" where
  "pop_heap lt xs first lst result = adjust_heap lt (iter_swap xs first result) first 0 (lst - first)"

function sort_heap :: "('a \<Rightarrow> 'a \<Rightarrow> bool) \<Rightarrow> 'a list \<Rightarrow> nat \<Rightarrow> nat \<Rightarrow> 'a list" where
  "sort_heap lt xs first lst =
     (if lst - first > 1 then sort_heap lt (pop_heap lt xs first (lst - 1) (lst - 1)) first (lst - 1)
      else xs)"
  by pat_completeness auto
termination
  by (relation "measure (\<lambda>(lt, xs, first, lst). lst - first)") auto

declare sort_heap.simps [simp del]

text \<open>
  \<^verbatim>\<open>__partial_sort(first, middle, last)\<close> with \<open>middle = last\<close>, as \<open>__introsort_loop\<close>
  calls it: \<open>__heap_select\<close> is then \<open>__make_heap\<close> alone, followed by \<open>__sort_heap\<close>.
\<close>
definition partial_sort :: "('a \<Rightarrow> 'a \<Rightarrow> bool) \<Rightarrow> 'a list \<Rightarrow> nat \<Rightarrow> nat \<Rightarrow> 'a list" where
  "partial_sort lt xs first lst = sort_heap lt (make_heap lt xs first lst) first lst"

text \<open>
  \<^verbatim>\<open>__introsort_loop(first, last, depth_limit)\<close>, with \<open>_S_threshold = 16\<close>:
  \<^verbatim>\<open>while (last - first > 16) {
    if (depth_limit == 0) { __partial_sort(first, last, last); return; }
    --depth_limit;
    cut = __unguarded_partition_pivot(first, last);
    __introsort_loop(cut, last, depth_limit);
    last = cut; }\<close>
\<close>
fun introsort_loop :: "('a \<Rightarrow> 'a \<Rightarrow> bool) \<Rightarrow> 'a list \<Rightarrow> nat \<Rightarrow> nat \<Rightarrow> nat \<Rightarrow> 'a list" where
  "introsort_loop lt xs first lst 0 =
     (if lst - first > 16 then partial_sort lt xs first lst else xs)"
| "introsort_loop lt xs first lst (Suc depth_limit) =
     (if lst - first > 16 then
        (let (xs1, cut) = unguarded_partition_pivot lt xs first lst;
             xs2 = introsort_loop lt xs1 cut lst depth_limit
         in introsort_loop lt xs2 first cut depth_limit)
      else xs)"

text \<open>
  \<^verbatim>\<open>__unguarded_linear_insert(last)\<close>:
  \<^verbatim>\<open>val = *last; next = last; --next;
  while (comp(val, next)) { *last = *next; last = next; --next; }
  *last = val;\<close>
  The sorted part of the array in front of \<open>val\<close> is the list \<open>pre\<close>;
  \<open>linear_insert_rev\<close> walks through it from its end. The C++ loop relies on an element
  in front that stops it; here \<open>val\<close> lands at the front when there is none.
\<close>
fun linear_insert_rev :: "('a \<Rightarrow> 'a \<Rightarrow> bool) \<Rightarrow> 'a \<Rightarrow> 'a list \<Rightarrow> 'a list" where
  "linear_insert_rev lt val [] = [val]"
| "linear_insert_rev lt val (y # ys) = (if lt val y then y # linear_insert_rev lt val ys else val # y # ys)"

definition unguarded_linear_insert :: "('a \<Rightarrow> 'a \<Rightarrow> bool) \<Rightarrow> 'a list \<Rightarrow> 'a \<Rightarrow> 'a list" where
  "unguarded_linear_insert lt pre val = rev (linear_insert_rev lt val (rev pre))"

text \<open>
  \<^verbatim>\<open>__insertion_sort(first, last)\<close>:
  \<^verbatim>\<open>if (first == last) return;
  for (i = first + 1; i != last; ++i) {
    if (comp(i, first)) { val = *i; move_backward(first, i, i + 1); *first = val; }
    else __unguarded_linear_insert(i); }\<close>
\<close>
definition insertion_step :: "('a \<Rightarrow> 'a \<Rightarrow> bool) \<Rightarrow> 'a list \<Rightarrow> 'a \<Rightarrow> 'a list" where
  "insertion_step lt pre val = (if lt val (hd pre) then val # pre else unguarded_linear_insert lt pre val)"

definition insertion_sort :: "('a \<Rightarrow> 'a \<Rightarrow> bool) \<Rightarrow> 'a list \<Rightarrow> 'a list" where
  "insertion_sort lt xs = (case xs of [] \<Rightarrow> [] | x # rest \<Rightarrow> foldl (insertion_step lt) [x] rest)"

text \<open>
  \<^verbatim>\<open>__final_insertion_sort(first, last)\<close>:
  \<^verbatim>\<open>if (last - first > 16) { __insertion_sort(first, first + 16);
    for (i = first + 16; i != last; ++i) __unguarded_linear_insert(i); }
  else __insertion_sort(first, last);\<close>
\<close>
definition final_insertion_sort :: "('a \<Rightarrow> 'a \<Rightarrow> bool) \<Rightarrow> 'a list \<Rightarrow> 'a list" where
  "final_insertion_sort lt xs =
     (if length xs > 16
      then foldl (unguarded_linear_insert lt) (insertion_sort lt (take 16 xs)) (drop 16 xs)
      else insertion_sort lt xs)"

text \<open>
  \<^verbatim>\<open>std::sort(first, last, comp)\<close>:
  \<^verbatim>\<open>if (first != last) {
    __introsort_loop(first, last, __lg(last - first) * 2);
    __final_insertion_sort(first, last); }\<close>
\<close>
definition stl_sort :: "('a \<Rightarrow> 'a \<Rightarrow> bool) \<Rightarrow> 'a list \<Rightarrow> 'a list" where
  "stl_sort lt xs =
     (if xs = [] then xs
      else final_insertion_sort lt (introsort_loop lt xs 0 (length xs) (lg (length xs) * 2)))"

text \<open>The example toolkit with this sort.\<close>
definition tkS :: Toolkit where
  "tkS = tk0\<lparr>std_sort := stl_sort\<rparr>"

subsection \<open>More example sessions\<close>

text \<open>
  A session without second validation (\<open>P1\<close>) in which observation 3 looks like
  observation 2. \<open>lcG\<close> and \<open>filesG\<close> are the object and the files after the first three
  observations, \<open>lcG1\<close> and \<open>filesG1\<close> after the \<open>setNode\<close> of observation 3, \<open>lcG2\<close> the
  object after its \<open>getLoopClosure\<close>.
\<close>
definition P1 :: Params where
  "P1 = P0\<lparr>validate := False\<rparr>"

definition obsG :: "observation list" where
  "obsG = [Mono \<lparr>getKp = kp2, getDesc = [[0], [0]], get3D = []\<rparr> ''g0'',
           Mono \<lparr>getKp = kp2, getDesc = [[5], [5]], get3D = []\<rparr> ''g1'',
           Mono \<lparr>getKp = kp2, getDesc = [[1], [2]], get3D = []\<rparr> ''g2'']"

definition obG :: observation where
  "obG = Mono \<lparr>getKp = kp2, getDesc = [[1], [2]], get3D = []\<rparr> ''g3''"

definition filesG :: FileSystem where
  "filesG = [''w/ex_7/0.yml'' \<mapsto> \<lparr>node_name = ''g0'', node_kp = kp2, node_desc = [[0], [0]], node_threed = []\<rparr>,
             ''w/ex_7/1.yml'' \<mapsto> \<lparr>node_name = ''g1'', node_kp = kp2, node_desc = [[5], [5]], node_threed = []\<rparr>,
             ''w/ex_7/2.yml'' \<mapsto> \<lparr>node_name = ''g2'', node_kp = kp2, node_desc = [[1], [2]], node_threed = []\<rparr>]"

definition lcG :: LoopClosure where
  "lcG = \<lparr>params = P1\<lparr>work_dir := ''w/ex_7''\<rparr>,
          img = \<lparr>getKp = kp2, getDesc = [[1], [2]], get3D = []\<rparr>,
          hash = \<lparr>initialized = True, basis = []\<rparr>, camera_matrix = [],
          hash_table = [(1, [10]), (2, [3])], img_idx = 3\<rparr>"

definition filesG1 :: FileSystem where
  "filesG1 = filesG(''w/ex_7/3.yml'' \<mapsto> \<lparr>node_name = ''g3'', node_kp = kp2, node_desc = [[1], [2]], node_threed = []\<rparr>)"

definition lcG1 :: LoopClosure where
  "lcG1 = lcG\<lparr>img_idx := 4\<rparr>"

definition lcG2 :: LoopClosure where
  "lcG2 = lcG1\<lparr>hash_table := [(1, [10]), (2, [3]), (3, [3])]\<rparr>"

text \<open>
  A session with second validation in which observation 1 is stereo and the others are
  mono. \<open>lcM\<close> and \<open>filesM\<close> are the object and the files when \<open>getLoopClosure\<close> is
  called for observation 5, \<open>lcMa\<close> the object with the new table entry.
\<close>
definition obsM :: "observation list" where
  "obsM = [Mono \<lparr>getKp = kp2, getDesc = [[0], [0]], get3D = []\<rparr> ''x0'',
           Stereo \<lparr>getKp = kp2, getDesc = [[1], [2]], get3D = [(1, 2, 3), (4, 5, 6)]\<rparr> ''x1'',
           Mono \<lparr>getKp = kp2, getDesc = [[8], [8]], get3D = []\<rparr> ''x2'',
           Mono \<lparr>getKp = kp2, getDesc = [[1], [3]], get3D = []\<rparr> ''x3'',
           Mono \<lparr>getKp = kp2, getDesc = [[1], [9]], get3D = []\<rparr> ''x4'']"

definition obM :: observation where
  "obM = Mono \<lparr>getKp = kp2, getDesc = [[1], [2]], get3D = []\<rparr> ''x5''"

definition filesM :: FileSystem where
  "filesM = [''w/ex_7/0.yml'' \<mapsto> \<lparr>node_name = ''x0'', node_kp = kp2, node_desc = [[0], [0]], node_threed = []\<rparr>,
             ''w/ex_7/1.yml'' \<mapsto> \<lparr>node_name = ''x1'', node_kp = kp2, node_desc = [[1], [2]], node_threed = [(1, 2, 3), (4, 5, 6)]\<rparr>,
             ''w/ex_7/2.yml'' \<mapsto> \<lparr>node_name = ''x2'', node_kp = kp2, node_desc = [[8], [8]], node_threed = []\<rparr>,
             ''w/ex_7/3.yml'' \<mapsto> \<lparr>node_name = ''x3'', node_kp = kp2, node_desc = [[1], [3]], node_threed = []\<rparr>,
             ''w/ex_7/4.yml'' \<mapsto> \<lparr>node_name = ''x4'', node_kp = kp2, node_desc = [[1], [9]], node_threed = []\<rparr>,
             ''w/ex_7/5.yml'' \<mapsto> \<lparr>node_name = ''x5'', node_kp = kp2, node_desc = [[1], [2]], node_threed = []\<rparr>]"

definition lcM :: LoopClosure where
  "lcM = \<lparr>params = P0\<lparr>work_dir := ''w/ex_7''\<rparr>,
          img = \<lparr>getKp = kp2, getDesc = [[1], [2]], get3D = []\<rparr>,
          hash = \<lparr>initialized = True, basis = []\<rparr>, camera_matrix = [],
          hash_table = [(1, [3]), (2, [16]), (3, [4]), (4, [10])], img_idx = 6\<rparr>"

definition lcMa :: LoopClosure where
  "lcMa = lcM\<lparr>hash_table := hash_table lcM @ [(5, [3])]\<rparr>"

text \<open>
  A camera that stands still: nineteen observations with the same descriptors, without
  second validation. \<open>lcT\<close> and \<open>filesT\<close> are the object and the files when
  \<open>getLoopClosure\<close> is called for observation 18, \<open>lcTa\<close> the object with the new table
  entry.
\<close>
definition tnode :: Node where
  "tnode = \<lparr>node_name = ''t'', node_kp = kp2, node_desc = [[1], [2]], node_threed = []\<rparr>"

definition obT :: observation where
  "obT = Mono \<lparr>getKp = kp2, getDesc = [[1], [2]], get3D = []\<rparr> ''t''"

definition filesT :: FileSystem where
  "filesT = [''w/ex_7/0.yml'' \<mapsto> tnode,
             ''w/ex_7/1.yml'' \<mapsto> tnode,
             ''w/ex_7/2.yml'' \<mapsto> tnode,
             ''w/ex_7/3.yml'' \<mapsto> tnode,
             ''w/ex_7/4.yml'' \<mapsto> tnode,
             ''w/ex_7/5.yml'' \<mapsto> tnode,
             ''w/ex_7/6.yml'' \<mapsto> tnode,
             ''w/ex_7/7.yml'' \<mapsto> tnode,
             ''w/ex_7/8.yml'' \<mapsto> tnode,
             ''w/ex_7/9.yml'' \<mapsto> tnode,
             ''w/ex_7/10.yml'' \<mapsto> tnode,
             ''w/ex_7/11.yml'' \<mapsto> tnode,
             ''w/ex_7/12.yml'' \<mapsto> tnode,
             ''w/ex_7/13.yml'' \<mapsto> tnode,
             ''w/ex_7/14.yml'' \<mapsto> tnode,
             ''w/ex_7/15.yml'' \<mapsto> tnode,
             ''w/ex_7/16.yml'' \<mapsto> tnode,
             ''w/ex_7/17.yml'' \<mapsto> tnode,
             ''w/ex_7/18.yml'' \<mapsto> tnode]"

definition lcT :: LoopClosure where
  "lcT = \<lparr>params = P1\<lparr>work_dir := ''w/ex_7''\<rparr>,
          img = \<lparr>getKp = kp2, getDesc = [[1], [2]], get3D = []\<rparr>,
          hash = \<lparr>initialized = True, basis = []\<rparr>, camera_matrix = [],
          hash_table = [(1, [3]), (2, [3]), (3, [3]), (4, [3]), (5, [3]), (6, [3]), (7, [3]), (8, [3]), (9, [3]), (10, [3]), (11, [3]), (12, [3]), (13, [3]), (14, [3]), (15, [3]), (16, [3]), (17, [3])], img_idx = 19\<rparr>"

definition lcTa :: LoopClosure where
  "lcTa = lcT\<lparr>hash_table := hash_table lcT @ [(18, [3])]\<rparr>"

definition obsT :: "observation list" where
  "obsT = replicate 18 obT"

section \<open>Properties\<close>

subsection \<open>Basic facts\<close>

lemma compute_missing:
  "files f = None \<Longrightarrow> compute tk lc files ref f n t = Inr (False, n, 0, 0, t)"
  by (simp add: compute_def)

lemma to_size_t_nonneg: "0 \<le> i \<Longrightarrow> i < 2 ^ 64 \<Longrightarrow> to_size_t i = nat i"
  by (simp add: to_size_t_def)

lemma getLoopClosure_uninitialized:
  "\<not> isInitialized (hash lc) \<Longrightarrow>
   getLoopClosure tk tv lc files i n t =
     Inr ((False, i, n, t), lc\<lparr>hash := Hash_init tk (num_proj (params lc)) (hash lc) (getDesc (img lc)) True\<rparr>)"
  by (simp add: getLoopClosure_def)

lemma init_state:
  "init now lc files = Inr (lc0, files1) \<Longrightarrow>
   hash_table lc0 = [] \<and> img_idx lc0 = 0 \<and> hash lc0 = hash lc \<and>
   params lc0 = (params lc)\<lparr>work_dir := work_dir (params lc0)\<rparr>"
  by (auto simp: init_def Let_def split: option.splits)

lemma ingest_state:
  "ingest lc files ob = (lc1, files1) \<Longrightarrow>
   hash_table lc1 = hash_table lc \<and> img_idx lc1 = img_idx lc + 1 \<and> hash lc1 = hash lc \<and>
   params lc1 = params lc \<and> img lc1 = obs_image ob"
  by (cases ob) (auto simp: setNode_def setNode_stereo_def Let_def)

lemma lexical_cast_7: "lexical_cast 7 = ''7''"
  by code_simp

lemma init_example: "init 7 (new_LoopClosure P0) Map.empty = Inr (lcA, Map.empty)"
  by (simp add: init_def new_LoopClosure_def P0_def lcA_def vec_at_def lexical_cast_7 Let_def)

subsection \<open>The bootstrap step\<close>

text \<open>
  C4. The first observation of a session never closes a loop, whatever the parameters:
  after \<open>init\<close> and the first \<open>setNode\<close> the hash is not initialized, so
  \<open>getLoopClosure\<close> returns \<open>false\<close>, leaves the caller's variables as they are, seeds the
  basis from the descriptors of that observation and leaves the hash table empty.
\<close>
theorem first_observation_no_closure:
  assumes "init now (new_LoopClosure P) files0 = Inr (lc0, files1)"
    and "ingest lc0 files1 ob = (lc1, files2)"
  shows "getLoopClosure tk tv lc1 files2 i n t =
           Inr ((False, i, n, t),
                lc1\<lparr>hash := \<lparr>initialized = True, basis = draw_basis tk (getDesc (obs_image ob)) (num_proj P)\<rparr>\<rparr>)
         \<and> hash_table lc1 = []"
proof -
  from init_state[OF assms(1)] have a: "hash_table lc0 = []" "hash lc0 = hash (new_LoopClosure P)"
    "params lc0 = P\<lparr>work_dir := work_dir (params lc0)\<rparr>"
    by (simp_all add: new_LoopClosure_def)
  have "num_proj (params lc0) = num_proj P"
    by (subst a(3)) simp
  with ingest_state[OF assms(2)] a have b: "hash_table lc1 = []"
    "hash lc1 = \<lparr>initialized = False, basis = []\<rparr>"
    "num_proj (params lc1) = num_proj P" "img lc1 = obs_image ob"
    by (simp_all add: new_LoopClosure_def)
  have "\<not> isInitialized (hash lc1)" using b by (simp add: isInitialized_def)
  from getLoopClosure_uninitialized[OF this] b show ?thesis
    by (simp add: Hash_init_def)
qed

theorem first_observation_no_closure_witness:
  "init 7 (new_LoopClosure P0) Map.empty = Inr (lcA, Map.empty) \<and>
   getLoopClosure tk0 identity_tf (fst (ingest lcA Map.empty ob5)) (snd (ingest lcA Map.empty ob5))
       7 ''old'' ([[2]], [5]) =
     Inr ((False, 7, ''old'', ([[2]], [5])),
          (fst (ingest lcA Map.empty ob5))\<lparr>hash := \<lparr>initialized = True, basis = []\<rparr>\<rparr>)
   \<and> hash_table (fst (ingest lcA Map.empty ob5)) = []"
proof -
  have h: "ingest lcA Map.empty ob5 = (fst (ingest lcA Map.empty ob5), snd (ingest lcA Map.empty ob5))"
    by simp
  show ?thesis
    using first_observation_no_closure[OF init_example h, of tk0 identity_tf 7 "''old''" "([[2]], [5])"] init_example
    by (simp add: tk0_def ob5_def P0_def)
qed

subsection \<open>Too few neighbours\<close>

text \<open>
  C5. When the hash is initialized and the table, after the entry of the current
  observation has been appended, has at most \<open>min_neighbour\<close> entries, \<open>getLoopClosure\<close>
  returns \<open>false\<close> at once: the result is the caller's variables unchanged and the object
  with the one new table entry; no file is read, nothing is sorted, no candidate is
  verified. (\<open>min_neighbour\<close> is an \<open>int\<close>, below 2^31.)
\<close>
theorem too_few_neighbours_no_closure:
  assumes "isInitialized (hash lc)"
    and "int (length (hash_table lc)) + 1 \<le> min_neighbour (params lc)"
    and "min_neighbour (params lc) < 2 ^ 31"
  shows "getLoopClosure tk tv lc files i n t =
           Inr ((False, i, n, t),
                lc\<lparr>hash_table := hash_table lc @ [(img_idx lc - 1, getHash tk (hash lc) (getDesc (img lc)))]\<rparr>)"
proof -
  have "to_size_t (min_neighbour (params lc)) = nat (min_neighbour (params lc))"
    using assms(2,3) by (intro to_size_t_nonneg) auto
  moreover have "Suc (length (hash_table lc)) \<le> nat (min_neighbour (params lc))"
    using assms(2) by linarith
  ultimately show ?thesis using assms(1)
    by (simp add: getLoopClosure_def Let_def)
qed

theorem too_few_neighbours_no_closure_witness:
  "isInitialized (hash lc5_gap5) \<and>
   int (length (hash_table lc5_gap5)) + 1 \<le> min_neighbour (params lc5_gap5) \<and>
   min_neighbour (params lc5_gap5) < 2 ^ 31 \<and>
   getLoopClosure tk0 identity_tf lc5_gap5 files5 (- 1) [] identity_tf =
     Inr ((False, - 1, [], identity_tf),
          lc5_gap5\<lparr>hash_table := [(1, [8]), (2, [16]), (3, [3]), (4, [18]), (5, [3])]\<rparr>)"
proof -
  have h1: "isInitialized (hash lc5_gap5)"
    by (simp add: lc5_gap5_def lc5_def isInitialized_def)
  have h2: "int (length (hash_table lc5_gap5)) + 1 \<le> min_neighbour (params lc5_gap5)"
    by (simp add: lc5_gap5_def lc5_def)
  have h3: "min_neighbour (params lc5_gap5) < 2 ^ 31"
    by (simp add: lc5_gap5_def lc5_def)
  have h4: "getHash tk0 (hash lc5_gap5) (getDesc (img lc5_gap5)) = [3]"
    by (simp add: lc5_gap5_def lc5_def getHash_def tk0_def)
  have h5: "hash_table lc5_gap5 = [(1, [8]), (2, [16]), (3, [3]), (4, [18])]" "img_idx lc5_gap5 = 6"
    by (simp_all add: lc5_gap5_def lc5_def)
  show ?thesis
    using too_few_neighbours_no_closure[OF h1 h2 h3, of tk0 identity_tf files5 "- 1" "[]" identity_tf] h1 h2 h3
    by (simp add: h4 h5)
qed

subsection \<open>The verdict of \<open>compute\<close> does not depend on the output variables it is handed\<close>

lemma compute_verdict_indep:
  "map_sum id fst (compute tk lc files ref f n1 t1) = map_sum id fst (compute tk lc files ref f n2 t2)"
  by (simp add: compute_def Let_def split: option.splits prod.splits)

lemma validation_verdicts:
  "validation tk lc files tv first =
     (case map_sum id fst (compute tk lc files (img lc) (yml lc (first - 1)) [] tv) of
        Inl e \<Rightarrow> Inl e
      | Inr v \<Rightarrow> if v then Inr True else map_sum id fst (compute tk lc files (img lc) (yml lc (first + 1)) [] tv))"
proof (cases "compute tk lc files (img lc) (yml lc (first - 1)) [] tv")
  case (Inl e)
  then show ?thesis by (simp add: validation_def)
next
  case (Inr r)
  obtain v nm m k t where r: "r = (v, nm, m, k, t)" by (cases r)
  show ?thesis
  proof (cases v)
    case True
    with Inr r show ?thesis by (simp add: validation_def)
  next
    case False
    have "map_sum id fst (compute tk lc files (img lc) (yml lc (first + 1)) nm t)
        = map_sum id fst (compute tk lc files (img lc) (yml lc (first + 1)) [] tv)"
      by (rule compute_verdict_indep)
    with False Inr r show ?thesis
      by (cases "compute tk lc files (img lc) (yml lc (first + 1)) nm t")
         (auto simp: validation_def split: sum.splits)
  qed
qed

lemma validation_indep: "validation tk lc files tv1 first = validation tk lc files tv2 first"
proof -
  have "map_sum id fst (compute tk lc files (img lc) f [] tv1)
      = map_sum id fst (compute tk lc files (img lc) f [] tv2)" for f
    by (rule compute_verdict_indep)
  then show ?thesis by (simp only: validation_verdicts)
qed

subsection \<open>One round of the candidate loop\<close>

lemma loop_stop:
  "\<not> int k < n_candidates (params lc) \<Longrightarrow>
   candidate_loop tk lc files tv ms k v n t = Inr (k, v, n, t)"
  by (subst candidate_loop.simps) simp

lemma loop_sanity:
  "int k < n_candidates (params lc) \<Longrightarrow> length ms \<le> k \<Longrightarrow>
   candidate_loop tk lc files tv ms k v n t = Inr (0, v, n, t)"
  by (subst candidate_loop.simps) simp

lemma loop_error:
  "int k < n_candidates (params lc) \<Longrightarrow> k < length ms \<Longrightarrow>
   compute tk lc files (img lc) (yml lc (fst (ms ! k))) n t = Inl e \<Longrightarrow>
   candidate_loop tk lc files tv ms k v n t = Inl e"
  by (subst candidate_loop.simps) simp

lemma loop_rejected:
  "int k < n_candidates (params lc) \<Longrightarrow> k < length ms \<Longrightarrow>
   compute tk lc files (img lc) (yml lc (fst (ms ! k))) n t = Inr (False, nm, m, i, t1) \<Longrightarrow>
   candidate_loop tk lc files tv ms k v n t = candidate_loop tk lc files tv ms (Suc k) False nm t1"
  by (subst candidate_loop.simps) simp

lemma loop_accepted_plain:
  "int k < n_candidates (params lc) \<Longrightarrow> k < length ms \<Longrightarrow> \<not> validate (params lc) \<Longrightarrow>
   compute tk lc files (img lc) (yml lc (fst (ms ! k))) n t = Inr (True, nm, m, i, t1) \<Longrightarrow>
   candidate_loop tk lc files tv ms k v n t = Inr (k, True, nm, t1)"
  by (subst candidate_loop.simps) simp

lemma loop_validated:
  "int k < n_candidates (params lc) \<Longrightarrow> k < length ms \<Longrightarrow> validate (params lc) \<Longrightarrow>
   compute tk lc files (img lc) (yml lc (fst (ms ! k))) n t = Inr (True, nm, m, i, t1) \<Longrightarrow>
   candidate_loop tk lc files tv ms k v n t =
     (case validation tk lc files tv (fst (ms ! k)) of
        Inl e \<Rightarrow> Inl e
      | Inr vv \<Rightarrow> if vv then Inr (k, True, nm, t1)
                  else candidate_loop tk lc files tv ms (Suc k) False nm t1)"
  by (subst candidate_loop.simps) simp

lemma candidate_loop_accept:
  "candidate_loop tk lc files tv ms k v n t = Inr (b, True, nm, t') \<Longrightarrow> \<not> v \<Longrightarrow>
   k \<le> b \<and> b < length ms \<and> int b < n_candidates (params lc) \<and>
   (\<exists>n0 t0 m i. compute tk lc files (img lc) (yml lc (fst (ms ! b))) n0 t0 = Inr (True, nm, m, i, t')) \<and>
   (validate (params lc) \<longrightarrow> validation tk lc files tv (fst (ms ! b)) = Inr True)"
proof (induction "length ms - k" arbitrary: k v n t)
  case 0
  then have "length ms \<le> k" by simp
  with "0.prems" show ?case
    by (cases "int k < n_candidates (params lc)") (simp_all add: loop_stop loop_sanity)
next
  case (Suc d)
  then have k: "k < length ms" and d: "d = length ms - Suc k" by simp_all
  show ?case
  proof (cases "int k < n_candidates (params lc)")
    case False
    with Suc.prems show ?thesis by (simp add: loop_stop)
  next
    case nc: True
    show ?thesis
    proof (cases "compute tk lc files (img lc) (yml lc (fst (ms ! k))) n t")
      case (Inl e)
      with Suc.prems nc k show ?thesis by (simp add: loop_error)
    next
      case (Inr r)
      obtain v1 nm1 m1 i1 t1 where r: "r = (v1, nm1, m1, i1, t1)" by (cases r)
      note c = Inr[unfolded r]
      show ?thesis
      proof (cases v1)
        case False
        with c have "candidate_loop tk lc files tv ms k v n t = candidate_loop tk lc files tv ms (Suc k) False nm1 t1"
          using nc k by (simp add: loop_rejected)
        with Suc.prems Suc.hyps(1)[OF d, of False nm1 t1] show ?thesis by simp
      next
        case True
        with c have c: "compute tk lc files (img lc) (yml lc (fst (ms ! k))) n t = Inr (True, nm1, m1, i1, t1)"
          by simp
        show ?thesis
        proof (cases "validate (params lc)")
          case False
          from loop_accepted_plain[OF nc k False c, of tv v] Suc.prems(1)
          have e: "b = k" "nm = nm1" "t' = t1" by simp_all
          show ?thesis unfolding e using c nc k False by blast
        next
          case vd: True
          note u = loop_validated[OF nc k vd c, of tv v]
          show ?thesis
          proof (cases "validation tk lc files tv (fst (ms ! k))")
            case (Inl e)
            with u Suc.prems show ?thesis by simp
          next
            case (Inr vv)
            show ?thesis
            proof (cases vv)
              case True
              with u Inr Suc.prems(1) have e: "b = k" "nm = nm1" "t' = t1" by simp_all
              from Inr True have "validation tk lc files tv (fst (ms ! k)) = Inr True" by simp
              then show ?thesis unfolding e using c nc k by blast
            next
              case False
              with u Inr have "candidate_loop tk lc files tv ms k v n t = candidate_loop tk lc files tv ms (Suc k) False nm1 t1"
                by simp
              with Suc.prems Suc.hyps(1)[OF d, of False nm1 t1] show ?thesis by simp
            qed
          qed
        qed
      qed
    qed
  qed
qed

subsection \<open>The example, evaluated\<close>

lemma lexical_cast_small:
  "lexical_cast (- 1) = ''-1''" "lexical_cast 0 = ''0''" "lexical_cast 1 = ''1''"
  "lexical_cast 2 = ''2''" "lexical_cast 3 = ''3''" "lexical_cast 4 = ''4''"
  "lexical_cast 5 = ''5''" "lexical_cast 6 = ''6''"
  by code_simp+

lemma yml_lc5a:
  "yml lc5a (- 1) = ''w/ex_7/-1.yml''" "yml lc5a 0 = ''w/ex_7/0.yml''" "yml lc5a 1 = ''w/ex_7/1.yml''"
  "yml lc5a 2 = ''w/ex_7/2.yml''" "yml lc5a 3 = ''w/ex_7/3.yml''" "yml lc5a 4 = ''w/ex_7/4.yml''"
  "yml lc5a 5 = ''w/ex_7/5.yml''"
  by (simp_all add: yml_def lc5a_def lc5_def lexical_cast_small)

lemmas ex_defs = compute_def lc5a_def lc5_def files5_def tk0_def P0_def kp2_def vec_at_def cv_sum_def identity_tf_def

lemma compute_ex3: "compute tk0 lc5a files5 (img lc5a) ''w/ex_7/3.yml'' n t = Inr (True, ''n3'', 2, 2, t)"
  by (simp add: ex_defs)

lemma compute_ex2: "compute tk0 lc5a files5 (img lc5a) ''w/ex_7/2.yml'' n t = Inr (False, ''n2'', 0, 0, t)"
  by (simp add: ex_defs)

lemma compute_ex4: "compute tk0 lc5a files5 (img lc5a) ''w/ex_7/4.yml'' n t = Inr (False, ''n4'', 0, 0, t)"
  by (simp add: ex_defs)

lemma compute_ex1: "compute tk0 lc5a files5 (img lc5a) ''w/ex_7/1.yml'' n t = Inr (True, ''n1'', 1, 1, (fst identity_tf, [1, 2, 3]))"
  by (simp add: ex_defs)

lemma compute_ex0: "compute tk0 lc5a files5 (img lc5a) ''w/ex_7/0.yml'' n t = Inr (True, ''n0'', 1, 1, (fst identity_tf, [7, 7, 7]))"
  by (simp add: ex_defs)

lemma ranking_ex: "std_sort tk0 sortByMatching (hash_matchings tk0 lc5a [3]) = [(3, 0), (1, 5), (2, 13), (4, 15)]"
  by (simp add: hash_matchings_def lc5a_def lc5_def tk0_def P0_def to_size_t_def match_def l1_def sortByMatching_def)

subsection \<open>\<open>getLoopClosure\<close> past its two early returns\<close>

lemma getLoopClosure_main:
  assumes "isInitialized (hash lc)"
    and "\<not> Suc (length (hash_table lc)) \<le> to_size_t (min_neighbour (params lc))"
    and "hash_val = getHash tk (hash lc) (getDesc (img lc))"
    and "lc1 = lc\<lparr>hash_table := hash_table lc @ [(img_idx lc - 1, hash_val)]\<rparr>"
    and "ms = std_sort tk sortByMatching (hash_matchings tk lc1 hash_val)"
  shows "getLoopClosure tk tv lc files i n t =
     (case candidate_loop tk lc1 files tv ms 0 False [] identity_tf of
        Inl e \<Rightarrow> Inl e
      | Inr (best_m, valid, lc_name1, tr1) \<Rightarrow>
          if valid \<and> best_m < length ms
          then Inr ((valid, fst (ms ! best_m), lc_name1, tr1), lc1)
          else Inr ((valid, - 1, [], tr1), lc1))"
proof -
  have "\<not> length (hash_table lc1) \<le> to_size_t (min_neighbour (params lc1))"
    using assms(2) by (simp add: assms(4))
  then show ?thesis
    unfolding getLoopClosure_def Let_def assms(5) assms(4) assms(3)
    using assms(1) by (simp only: if_False if_True not_not simp_thms)
qed

lemma getLoopClosure_True:
  assumes "getLoopClosure tk tv lc files i n t = Inr ((True, idx, nm, t'), lc')"
  shows "isInitialized (hash lc) \<and>
         \<not> Suc (length (hash_table lc)) \<le> to_size_t (min_neighbour (params lc)) \<and>
         lc' = lc\<lparr>hash_table := hash_table lc @ [(img_idx lc - 1, getHash tk (hash lc) (getDesc (img lc)))]\<rparr> \<and>
         (\<exists>b. candidate_loop tk lc' files tv
                (std_sort tk sortByMatching (hash_matchings tk lc' (getHash tk (hash lc) (getDesc (img lc)))))
                0 False [] identity_tf = Inr (b, True, nm, t') \<and>
              b < length (std_sort tk sortByMatching (hash_matchings tk lc' (getHash tk (hash lc) (getDesc (img lc))))) \<and>
              idx = fst (std_sort tk sortByMatching (hash_matchings tk lc' (getHash tk (hash lc) (getDesc (img lc)))) ! b))"
proof -
  have i: "isInitialized (hash lc)"
    using assms by (auto simp: getLoopClosure_def split: if_splits)
  have s: "\<not> Suc (length (hash_table lc)) \<le> to_size_t (min_neighbour (params lc))"
    using assms i by (auto simp: getLoopClosure_def Let_def split: if_splits)
  define hv where "hv = getHash tk (hash lc) (getDesc (img lc))"
  define lc1 where "lc1 = lc\<lparr>hash_table := hash_table lc @ [(img_idx lc - 1, hv)]\<rparr>"
  define ms where "ms = std_sort tk sortByMatching (hash_matchings tk lc1 hv)"
  note m = getLoopClosure_main[OF i s hv_def lc1_def ms_def, of tv files i n t]
  show ?thesis
  proof (cases "candidate_loop tk lc1 files tv ms 0 False [] identity_tf")
    case (Inl e)
    with m assms show ?thesis by simp
  next
    case (Inr r)
    obtain b v nm1 t1 where r: "r = (b, v, nm1, t1)" by (cases r)
    from m assms Inr r have v: "v"
      by (simp split: if_splits)
    from Inr r v have "candidate_loop tk lc1 files tv ms 0 False [] identity_tf = Inr (b, True, nm1, t1)"
      by simp
    from candidate_loop_accept[OF this] have "b < length ms" by simp
    with m assms Inr r v have "v \<and> b < length ms \<and> idx = fst (ms ! b) \<and> nm = nm1 \<and> t' = t1 \<and> lc' = lc1"
      by simp
    with Inr r i s show ?thesis
      unfolding ms_def lc1_def hv_def by auto
  qed
qed

subsection \<open>A record file that is not there\<close>

text \<open>
  C2, as the code has it. When the file that \<open>compute\<close> is asked to read does not exist,
  \<open>compute\<close> returns \<open>false\<close> with \<open>matches = 0\<close> and \<open>inliers = 0\<close> and leaves
  \<open>lc_name\<close> and the transform as they were: an ordinary value, not a failure. In the
  candidate loop such a candidate is skipped like any rejected one: the loop goes on with
  the next ranked candidate.
\<close>
theorem missing_record_is_silent_reject:
  assumes "files f = None"
  shows "compute tk lc files ref f n t = Inr (False, n, 0, 0, t) \<and>
         (int k < n_candidates (params lc) \<and> k < length ms \<and> f = yml lc (fst (ms ! k)) \<longrightarrow>
            candidate_loop tk lc files tv ms k v n t = candidate_loop tk lc files tv ms (Suc k) False n t)"
proof -
  have c: "compute tk lc files r f n t = Inr (False, n, 0, 0, t)" for r
    using assms by (rule compute_missing)
  show ?thesis
    using c[of ref] c[of "img lc"] by (auto intro: loop_rejected)
qed

lemma yml_lc5a_plain:
  "yml lc5a_plain 1 = ''w/ex_7/1.yml''" "yml lc5a_plain 2 = ''w/ex_7/2.yml''"
  "yml lc5a_plain 3 = ''w/ex_7/3.yml''" "yml lc5a_plain 4 = ''w/ex_7/4.yml''"
  by (simp_all add: yml_def lc5a_plain_def lc5_plain_def lc5_def lexical_cast_small)

lemma ranking_plain:
  "std_sort tk0 sortByMatching (hash_matchings tk0 lc5a_plain [3]) = [(3, 0), (1, 5), (2, 13), (4, 15)]"
  by (simp add: hash_matchings_def lc5a_plain_def lc5_plain_def lc5_def tk0_def P0_def to_size_t_def match_def l1_def sortByMatching_def)

lemmas plain_defs = compute_def lc5a_plain_def lc5_plain_def lc5_def files5_missing3_def files5_def tk0_def P0_def
  kp2_def vec_at_def cv_sum_def identity_tf_def

lemma compute_plain3: "compute tk0 lc5a_plain files5_missing3 (img lc5a_plain) ''w/ex_7/3.yml'' n t = Inr (False, n, 0, 0, t)"
  by (simp add: plain_defs)

lemma compute_plain1: "compute tk0 lc5a_plain files5_missing3 (img lc5a_plain) ''w/ex_7/1.yml'' n t
    = Inr (True, ''n1'', 1, 1, (fst identity_tf, [1, 2, 3]))"
  by (simp add: plain_defs)

lemma loop_plain:
  "candidate_loop tk0 lc5a_plain files5_missing3 tv [(3, 0), (1, 5), (2, 13), (4, 15)] 0 False [] identity_tf
     = Inr (1, True, ''n1'', (fst identity_tf, [1, 2, 3]))"
proof -
  have nc: "n_candidates (params lc5a_plain) = 4" "\<not> validate (params lc5a_plain)"
    by (simp_all add: lc5a_plain_def lc5_plain_def lc5_def P0_def)
  have "candidate_loop tk0 lc5a_plain files5_missing3 tv [(3, 0), (1, 5), (2, 13), (4, 15)] 0 False [] identity_tf
      = candidate_loop tk0 lc5a_plain files5_missing3 tv [(3, 0), (1, 5), (2, 13), (4, 15)] (Suc 0) False [] identity_tf"
    by (rule loop_rejected[where m=0 and i=0]) (simp_all add: nc yml_lc5a_plain compute_plain3)
  also have "\<dots> = Inr (Suc 0, True, ''n1'', (fst identity_tf, [1, 2, 3]))"
    by (rule loop_accepted_plain[where m=1 and i=1]) (simp_all add: nc yml_lc5a_plain compute_plain1)
  finally show ?thesis by simp
qed

lemma getLoopClosure_plain:
  "getLoopClosure tk0 tv lc5_plain files5_missing3 i n t
     = Inr ((True, 1, ''n1'', (fst identity_tf, [1, 2, 3])), lc5a_plain)"
proof -
  have a: "isInitialized (hash lc5_plain)" by (simp add: lc5_plain_def lc5_def isInitialized_def)
  have b: "\<not> Suc (length (hash_table lc5_plain)) \<le> to_size_t (min_neighbour (params lc5_plain))"
    by (simp add: lc5_plain_def lc5_def P0_def to_size_t_def)
  have c: "[3] = getHash tk0 (hash lc5_plain) (getDesc (img lc5_plain))"
    by (simp add: lc5_plain_def lc5_def getHash_def tk0_def)
  have d: "lc5a_plain = lc5_plain\<lparr>hash_table := hash_table lc5_plain @ [(img_idx lc5_plain - 1, [3])]\<rparr>"
    by (simp add: lc5a_plain_def lc5_plain_def lc5_def)
  show ?thesis
    by (simp add: getLoopClosure_main[OF a b c d ranking_plain[symmetric]] loop_plain)
qed

text \<open>
  C2 as stated fails. In the example without second validation the best ranked candidate
  is observation 3. With its file removed, \<open>compute\<close> returns \<open>false\<close> for it, and
  \<open>getLoopClosure\<close> returns normally with the loop closed on the next candidate,
  observation 1.
\<close>
theorem missing_record_counterexample:
  "files5_missing3 (yml lc5a_plain 3) = None \<and>
   compute tk0 lc5a_plain files5_missing3 (img lc5a_plain) (yml lc5a_plain 3) [] identity_tf
     = Inr (False, [], 0, 0, identity_tf) \<and>
   getLoopClosure tk0 identity_tf lc5_plain files5_missing3 (- 1) [] identity_tf
     = Inr ((True, 1, ''n1'', (fst identity_tf, [1, 2, 3])), lc5a_plain)"
  by (simp add: yml_lc5a_plain compute_plain3 getLoopClosure_plain) (simp add: files5_missing3_def)

theorem missing_record_is_silent_reject_witness:
  "files5_missing3 ''w/ex_7/3.yml'' = None \<and>
   compute tk0 lc5a_plain files5_missing3 (img lc5a_plain) ''w/ex_7/3.yml'' ''old'' identity_tf
     = Inr (False, ''old'', 0, 0, identity_tf) \<and>
   int 0 < n_candidates (params lc5a_plain) \<and> 0 < length [(3, 0), (1, 5 :: real)] \<and>
   ''w/ex_7/3.yml'' = yml lc5a_plain (fst ([(3, 0), (1, 5 :: real)] ! 0)) \<and>
   candidate_loop tk0 lc5a_plain files5_missing3 identity_tf [(3, 0), (1, 5)] 0 True ''old'' identity_tf
     = candidate_loop tk0 lc5a_plain files5_missing3 identity_tf [(3, 0), (1, 5)] (Suc 0) False ''old'' identity_tf"
proof -
  have h: "files5_missing3 ''w/ex_7/3.yml'' = None" by (simp add: files5_missing3_def)
  have g: "int 0 < n_candidates (params lc5a_plain)" "0 < length [(3 :: int, 0), (1, 5 :: real)]"
    "''w/ex_7/3.yml'' = yml lc5a_plain (fst ([(3, 0), (1, 5 :: real)] ! 0))"
    by (simp_all add: yml_lc5a_plain) (simp add: lc5a_plain_def lc5_plain_def lc5_def P0_def)
  show ?thesis
    using missing_record_is_silent_reject[of files5_missing3 "''w/ex_7/3.yml''" tk0 lc5a_plain
        "img lc5a_plain" "''old''" identity_tf 0 "[(3, 0), (1, 5)]" identity_tf True] h g
    by simp
qed

subsection \<open>More facts about the candidate loop\<close>

lemma candidate_loop_indep:
  "candidate_loop tk lc files tv1 ms k v n t = candidate_loop tk lc files tv2 ms k v n t"
proof (induction "length ms - k" arbitrary: k v n t)
  case 0
  then have "length ms \<le> k" by simp
  then show ?case
    by (cases "int k < n_candidates (params lc)") (simp_all add: loop_stop loop_sanity)
next
  case (Suc d)
  then have k: "k < length ms" and d: "d = length ms - Suc k" by simp_all
  note IH = Suc.hyps(1)[OF d]
  show ?case
  proof (cases "int k < n_candidates (params lc)")
    case False
    then show ?thesis by (simp add: loop_stop)
  next
    case nc: True
    show ?thesis
    proof (cases "compute tk lc files (img lc) (yml lc (fst (ms ! k))) n t")
      case (Inl e)
      with nc k show ?thesis by (simp add: loop_error)
    next
      case (Inr r)
      obtain v1 nm1 m1 i1 t1 where r: "r = (v1, nm1, m1, i1, t1)" by (cases r)
      note c = Inr[unfolded r]
      show ?thesis
      proof (cases v1)
        case False
        with c nc k IH show ?thesis by (simp add: loop_rejected)
      next
        case True
        with c have c: "compute tk lc files (img lc) (yml lc (fst (ms ! k))) n t = Inr (True, nm1, m1, i1, t1)"
          by simp
        show ?thesis
        proof (cases "validate (params lc)")
          case False
          then show ?thesis by (simp add: loop_accepted_plain[OF nc k False c])
        next
          case vd: True
          show ?thesis
            unfolding loop_validated[OF nc k vd c] validation_indep[of tk lc files tv1 _ tv2]
            using IH by (simp split: sum.splits)
        qed
      qed
    qed
  qed
qed

lemma getLoopClosure_indep:
  "getLoopClosure tk tv1 lc files i n t = getLoopClosure tk tv2 lc files i n t"
proof -
  have "candidate_loop tk lc1 files tv1 ms 0 False [] identity_tf
      = candidate_loop tk lc1 files tv2 ms 0 False [] identity_tf" for lc1 ms
    by (rule candidate_loop_indep)
  then show ?thesis
    by (simp only: getLoopClosure_def)
qed

lemma compute_True_node:
  "compute tk lc files ref f n t = Inr (True, nm, m, i, t') \<Longrightarrow>
   \<exists>node. files f = Some node \<and> nm = node_name node"
  by (auto simp: compute_def Let_def split: option.splits if_splits prod.splits)

subsection \<open>More of the example\<close>

lemma params_lc5a: "validate (params lc5a)" "n_candidates (params lc5a) = 4"
  by (simp_all add: lc5a_def lc5_def P0_def)

lemma validation_ex3: "validation tk0 lc5a files5 tv 3 = Inr False"
  by (simp add: validation_def yml_lc5a compute_ex2 compute_ex4)

lemma validation_ex1: "validation tk0 lc5a files5 tv 1 = Inr True"
  by (simp add: validation_def yml_lc5a compute_ex0)

lemma loop_ex_from1:
  "candidate_loop tk0 lc5a files5 tv [(3, 0), (1, 5), (2, 13), (4, 15)] (Suc 0) v n t
     = Inr (Suc 0, True, ''n1'', (fst identity_tf, [1, 2, 3]))"
  by (subst loop_validated[where m=1 and i=1 and nm="''n1''" and ?t1.0="(fst identity_tf, [1, 2, 3])"])
     (simp_all add: params_lc5a yml_lc5a compute_ex1 validation_ex1)

lemma loop_ex:
  "candidate_loop tk0 lc5a files5 tv [(3, 0), (1, 5), (2, 13), (4, 15)] 0 False [] identity_tf
     = Inr (1, True, ''n1'', (fst identity_tf, [1, 2, 3]))"
proof -
  have "candidate_loop tk0 lc5a files5 tv [(3, 0), (1, 5), (2, 13), (4, 15)] 0 False [] identity_tf
      = candidate_loop tk0 lc5a files5 tv [(3, 0), (1, 5), (2, 13), (4, 15)] (Suc 0) False ''n3'' identity_tf"
    by (subst loop_validated[where m=2 and i=2 and nm="''n3''" and ?t1.0=identity_tf])
       (simp_all add: params_lc5a yml_lc5a compute_ex3 validation_ex3)
  then show ?thesis by (simp add: loop_ex_from1)
qed

lemma getLoopClosure_ex:
  "getLoopClosure tk0 tv lc5 files5 i n t = Inr ((True, 1, ''n1'', (fst identity_tf, [1, 2, 3])), lc5a)"
proof -
  have a: "isInitialized (hash lc5)" by (simp add: lc5_def isInitialized_def)
  have b: "\<not> Suc (length (hash_table lc5)) \<le> to_size_t (min_neighbour (params lc5))"
    by (simp add: lc5_def P0_def to_size_t_def)
  have c: "[3] = getHash tk0 (hash lc5) (getDesc (img lc5))"
    by (simp add: lc5_def getHash_def tk0_def)
  have d: "lc5a = lc5\<lparr>hash_table := hash_table lc5 @ [(img_idx lc5 - 1, [3])]\<rparr>"
    by (simp add: lc5a_def lc5_def)
  show ?thesis
    by (simp add: getLoopClosure_main[OF a b c d ranking_ex[symmetric]] loop_ex)
qed

subsection \<open>The second validation step\<close>

text \<open>
  C3. With \<open>validate\<close> on: when the candidate at position \<open>k\<close> of the ranking passes the
  primary verification and the verification against the file of the previous index and
  the one against the file of the next index both return \<open>false\<close>, the loop goes on at
  position \<open>k + 1\<close> with \<open>valid = false\<close>: the candidate is not accepted, nothing more is
  checked for it, and a loop closure that the call ends up reporting sits at a later
  position of the ranking.
\<close>
theorem failed_cross_checks_reject_candidate:
  assumes "validate (params lc)"
    and "int k < n_candidates (params lc)" and "k < length ms"
    and "compute tk lc files (img lc) (yml lc (fst (ms ! k))) n t = Inr (True, nm, m, i, t1)"
    and "compute tk lc files (img lc) (yml lc (fst (ms ! k) - 1)) [] tv = Inr (False, nmp, mp, ip, tp)"
    and "compute tk lc files (img lc) (yml lc (fst (ms ! k) + 1)) nmp tp = Inr (False, nmn, mn, inn, tn)"
  shows "candidate_loop tk lc files tv ms k v n t = candidate_loop tk lc files tv ms (Suc k) False nm t1 \<and>
         (\<forall>b nm' t'. candidate_loop tk lc files tv ms k v n t = Inr (b, True, nm', t') \<longrightarrow> k < b)"
proof -
  have "validation tk lc files tv (fst (ms ! k)) = Inr False"
    using assms(5,6) by (simp add: validation_def)
  with loop_validated[OF assms(2,3,1,4), of tv v]
  have e: "candidate_loop tk lc files tv ms k v n t = candidate_loop tk lc files tv ms (Suc k) False nm t1"
    by simp
  have "k < b" if "candidate_loop tk lc files tv ms (Suc k) False nm t1 = Inr (b, True, nm', t')" for b nm' t'
    using candidate_loop_accept[OF that] by simp
  with e show ?thesis by simp
qed

theorem failed_cross_checks_reject_candidate_witness:
  "validate (params lc5a) \<and> int 0 < n_candidates (params lc5a) \<and>
   0 < length [(3 :: int, 0 :: real), (1, 5), (2, 13), (4, 15)] \<and>
   compute tk0 lc5a files5 (img lc5a) (yml lc5a (fst ([(3, 0), (1, 5), (2, 13), (4, 15)] ! 0))) [] identity_tf
     = Inr (True, ''n3'', 2, 2, identity_tf) \<and>
   compute tk0 lc5a files5 (img lc5a) (yml lc5a (fst ([(3, 0), (1, 5), (2, 13), (4, 15)] ! 0) - 1)) [] identity_tf
     = Inr (False, ''n2'', 0, 0, identity_tf) \<and>
   compute tk0 lc5a files5 (img lc5a) (yml lc5a (fst ([(3, 0), (1, 5), (2, 13), (4, 15)] ! 0) + 1)) ''n2'' identity_tf
     = Inr (False, ''n4'', 0, 0, identity_tf) \<and>
   candidate_loop tk0 lc5a files5 identity_tf [(3, 0), (1, 5), (2, 13), (4, 15)] 0 False [] identity_tf
     = candidate_loop tk0 lc5a files5 identity_tf [(3, 0), (1, 5), (2, 13), (4, 15)] (Suc 0) False ''n3'' identity_tf \<and>
   candidate_loop tk0 lc5a files5 identity_tf [(3, 0), (1, 5), (2, 13), (4, 15)] 0 False [] identity_tf
     = Inr (1, True, ''n1'', (fst identity_tf, [1, 2, 3]))"
proof -
  let ?ms = "[(3 :: int, 0 :: real), (1, 5), (2, 13), (4, 15)]"
  have h1: "validate (params lc5a)" and h2: "int 0 < n_candidates (params lc5a)" and h3: "0 < length ?ms"
    by (simp_all add: params_lc5a)
  have h4: "compute tk0 lc5a files5 (img lc5a) (yml lc5a (fst (?ms ! 0))) [] identity_tf
      = Inr (True, ''n3'', 2, 2, identity_tf)"
    by (simp add: yml_lc5a compute_ex3)
  have h5: "compute tk0 lc5a files5 (img lc5a) (yml lc5a (fst (?ms ! 0) - 1)) [] identity_tf
      = Inr (False, ''n2'', 0, 0, identity_tf)"
    by (simp add: yml_lc5a compute_ex2)
  have h6: "compute tk0 lc5a files5 (img lc5a) (yml lc5a (fst (?ms ! 0) + 1)) ''n2'' identity_tf
      = Inr (False, ''n4'', 0, 0, identity_tf)"
    by (simp add: yml_lc5a compute_ex4)
  from failed_cross_checks_reject_candidate[OF h1 h2 h3 h4 h5 h6, of False]
  have "candidate_loop tk0 lc5a files5 identity_tf ?ms 0 False [] identity_tf
      = candidate_loop tk0 lc5a files5 identity_tf ?ms (Suc 0) False ''n3'' identity_tf"
    by simp
  with h1 h2 h3 h4 h5 h6 show ?thesis
    by (simp add: loop_ex_from1)
qed

text \<open>
  What an accepted result is made of, with \<open>validate\<close> on: the name is the one stored in
  the candidate's own file, the validation of the candidate has succeeded, and the local
  \<open>trans_val\<close> that the cross-checks write into has no influence on the result.
\<close>
lemma accepted_name_and_validation:
  assumes "validate (params lc)"
    and "getLoopClosure tk tv lc files i0 n0 t0 = Inr ((True, idx, nm, t'), lc')"
  shows "(\<exists>node. files (yml lc' idx) = Some node \<and> nm = node_name node) \<and>
         validation tk lc' files tv idx = Inr True \<and>
         (\<forall>tv'. getLoopClosure tk tv' lc files i0 n0 t0 = Inr ((True, idx, nm, t'), lc'))"
proof -
  from getLoopClosure_True[OF assms(2)] obtain b ms where
    lc': "lc' = lc\<lparr>hash_table := hash_table lc @ [(img_idx lc - 1, getHash tk (hash lc) (getDesc (img lc)))]\<rparr>"
    and loop: "candidate_loop tk lc' files tv ms 0 False [] identity_tf = Inr (b, True, nm, t')"
    and idx: "idx = fst (ms ! b)"
    by blast
  have p: "validate (params lc')" using assms(1) lc' by simp
  from candidate_loop_accept[OF loop] p idx
  have c: "\<exists>n1 t1 m i. compute tk lc' files (img lc') (yml lc' idx) n1 t1 = Inr (True, nm, m, i, t')"
    and v: "validation tk lc' files tv idx = Inr True"
    by simp_all
  from c have "\<exists>node. files (yml lc' idx) = Some node \<and> nm = node_name node"
    by (blast dest: compute_True_node)
  moreover have "getLoopClosure tk tv' lc files i0 n0 t0 = Inr ((True, idx, nm, t'), lc')" for tv'
    using assms(2) by (subst getLoopClosure_indep[of tk tv' lc files i0 n0 t0 tv])
  ultimately show ?thesis
    using v by blast
qed

subsection \<open>Mono verification and the transform\<close>

text \<open>
  One call of \<open>compute\<close> against a mono record (empty list of 3-D points) returns the
  transform it was handed, whether it accepts or rejects; when \<open>compute\<close> returns a
  different transform it has accepted a stereo record.
\<close>
lemma compute_transform_frame:
  assumes "compute tk lc files ref f n t = Inr (v, nm, m, i, t')"
  shows "(\<forall>node. files f = Some node \<and> node_threed node = [] \<longrightarrow> t' = t) \<and>
         (t' \<noteq> t \<longrightarrow> v \<and> (\<exists>node. files f = Some node \<and> node_threed node \<noteq> []))"
  using assms by (auto simp: compute_def Let_def split: option.splits if_splits prod.splits)

subsection \<open>The ranking\<close>

lemma sort_post_sortByMatching:
  "sort_post sortByMatching xs ys = (mset ys = mset xs \<and> sorted (map snd ys))"
  by (simp add: sort_post_def sortByMatching_def sorted_map not_less)

lemma mset_insert_before: "mset (insert_before lt x ys) = add_mset x (mset ys)"
  by (induction ys) auto

lemma set_insert_before: "set (insert_before lt x ys) = insert x (set ys)"
  by (induction ys) auto

lemma sorted_insert_before:
  "sorted (map snd ys) \<Longrightarrow> sorted (map snd (insert_before sortByMatching x ys))"
  by (induction ys) (auto simp: sortByMatching_def set_insert_before)

lemma insertion_sorts:
  "sort_post sortByMatching xs (foldr (insert_before sortByMatching) xs [])"
  by (induction xs)
     (auto simp: sort_post_sortByMatching mset_insert_before sorted_insert_before)

lemma tk0_conforms: "std_sort_conforms tk0"
  by (simp add: std_sort_conforms_def tk0_def insertion_sorts)

subsection \<open>The library sort leaves a permutation\<close>

lemma mset_iter_swap [simp]: "mset (iter_swap xs i j) = mset xs"
  by (simp add: iter_swap_def mset_swap)

lemma length_iter_swap [simp]: "length (iter_swap xs i j) = length xs"
  by (simp add: iter_swap_def)

lemma mset_move_median_to_first [simp]: "mset (move_median_to_first lt xs r a b c) = mset xs"
  by (simp add: move_median_to_first_def)

lemma mset_unguarded_partition [simp]: "mset (fst (unguarded_partition lt xs first lst pivot)) = mset xs"
  by (induction lt xs first lst pivot rule: unguarded_partition.induct)
     (subst unguarded_partition.simps, simp add: Let_def)

lemma mset_unguarded_partition_pivot [simp]: "mset (fst (unguarded_partition_pivot lt xs first lst)) = mset xs"
  by (simp add: unguarded_partition_pivot_def Let_def)

lemma mset_push_heap [simp]: "mset (push_heap lt xs first h t) = mset xs"
  by (induction lt xs first h t rule: push_heap.induct)
     (subst push_heap.simps, simp add: Let_def)

lemma mset_adjust_down [simp]: "mset (fst (adjust_down lt xs first h len)) = mset xs"
  by (induction lt xs first h len rule: adjust_down.induct)
     (subst adjust_down.simps, simp add: Let_def)

lemma mset_adjust_heap [simp]: "mset (adjust_heap lt xs first h len) = mset xs"
  by (simp add: adjust_heap_def Let_def split: prod.splits)
     (metis fst_conv mset_adjust_down)

lemma mset_make_heap_loop [simp]: "mset (make_heap_loop lt xs first len p) = mset xs"
  by (induction p arbitrary: xs) simp_all

lemma mset_make_heap [simp]: "mset (make_heap lt xs first lst) = mset xs"
  by (simp add: make_heap_def)

lemma mset_pop_heap [simp]: "mset (pop_heap lt xs first lst r) = mset xs"
  by (simp add: pop_heap_def)

lemma mset_sort_heap [simp]: "mset (sort_heap lt xs first lst) = mset xs"
  by (induction lt xs first lst rule: sort_heap.induct)
     (subst sort_heap.simps, simp)

lemma mset_partial_sort [simp]: "mset (partial_sort lt xs first lst) = mset xs"
  by (simp add: partial_sort_def)

lemma mset_introsort_loop [simp]: "mset (introsort_loop lt xs first lst d) = mset xs"
proof (induction d arbitrary: xs first lst)
  case 0
  show ?case by simp
next
  case (Suc d)
  show ?case
    by (simp add: Let_def Suc split: prod.splits)
       (metis fst_conv mset_unguarded_partition_pivot)
qed

lemma introsort_loop_small: "lst - first \<le> 16 \<Longrightarrow> introsort_loop lt xs first lst d = xs"
  by (cases d) simp_all

lemma mset_linear_insert_rev [simp]: "mset (linear_insert_rev lt v ys) = add_mset v (mset ys)"
  by (induction ys) simp_all

lemma set_linear_insert_rev [simp]: "set (linear_insert_rev lt v ys) = insert v (set ys)"
  by (induction ys) auto

lemma mset_unguarded_linear_insert [simp]: "mset (unguarded_linear_insert lt pre v) = add_mset v (mset pre)"
  by (simp add: unguarded_linear_insert_def)

lemma mset_insertion_step [simp]: "mset (insertion_step lt pre v) = add_mset v (mset pre)"
  by (simp add: insertion_step_def)

lemma mset_foldl_insertion_step: "mset (foldl (insertion_step lt) pre rest) = mset pre + mset rest"
  by (induction rest arbitrary: pre) simp_all

lemma mset_foldl_unguarded: "mset (foldl (unguarded_linear_insert lt) pre rest) = mset pre + mset rest"
  by (induction rest arbitrary: pre) simp_all

lemma mset_insertion_sort [simp]: "mset (insertion_sort lt xs) = mset xs"
  by (simp add: insertion_sort_def mset_foldl_insertion_step split: list.splits)

lemma mset_final_insertion_sort [simp]: "mset (final_insertion_sort lt xs) = mset xs"
proof -
  have "mset (take 16 xs) + mset (drop 16 xs) = mset xs"
    by (metis append_take_drop_id mset_append)
  then show ?thesis
    by (simp add: final_insertion_sort_def mset_foldl_unguarded)
qed

lemma mset_stl_sort: "mset (stl_sort lt xs) = mset xs"
  by (simp add: stl_sort_def)

subsection \<open>The library sort sorts by score, and keeps ties in place up to 16 elements\<close>

lemma sorted_linear_insert_rev:
  "sorted (map snd (rev ys)) \<Longrightarrow> sorted (map snd (rev (linear_insert_rev sortByMatching v ys)))"
  by (induction ys) (auto simp: sorted_append sortByMatching_def)

lemma sorted_unguarded_linear_insert:
  "sorted (map snd pre) \<Longrightarrow> sorted (map snd (unguarded_linear_insert sortByMatching pre v))"
  using sorted_linear_insert_rev[of "rev pre" v] by (simp add: unguarded_linear_insert_def)

lemma sorted_insertion_step:
  "sorted (map snd pre) \<Longrightarrow> pre \<noteq> [] \<Longrightarrow> sorted (map snd (insertion_step sortByMatching pre v))"
  by (cases pre) (auto simp: insertion_step_def sorted_unguarded_linear_insert sortByMatching_def)

lemma insertion_step_nonempty: "insertion_step lt pre v \<noteq> []"
  by (metis mset_insertion_step mset_zero_iff_right add_mset_not_empty)

lemma sorted_foldl_insertion_step:
  "sorted (map snd pre) \<Longrightarrow> pre \<noteq> [] \<Longrightarrow> sorted (map snd (foldl (insertion_step sortByMatching) pre rest))"
  by (induction rest arbitrary: pre) (simp_all add: sorted_insertion_step insertion_step_nonempty)

lemma sorted_foldl_unguarded:
  "sorted (map snd pre) \<Longrightarrow> sorted (map snd (foldl (unguarded_linear_insert sortByMatching) pre rest))"
  by (induction rest arbitrary: pre) (simp_all add: sorted_unguarded_linear_insert)

lemma sorted_insertion_sort: "sorted (map snd (insertion_sort sortByMatching xs))"
  by (cases xs) (simp_all add: insertion_sort_def sorted_foldl_insertion_step)

lemma sorted_final_insertion_sort: "sorted (map snd (final_insertion_sort sortByMatching xs))"
  by (simp add: final_insertion_sort_def sorted_insertion_sort sorted_foldl_unguarded)

lemma sorted_stl_sort: "sorted (map snd (stl_sort sortByMatching xs))"
  by (simp add: stl_sort_def sorted_final_insertion_sort)

text \<open>Stability of the insertion sort.\<close>

lemma stable_linear_insert_rev:
  "stable_ranking (rev ys) \<Longrightarrow> \<forall>a\<in>set ys. fst a < fst v \<Longrightarrow>
   stable_ranking (rev (linear_insert_rev sortByMatching v ys))"
proof (induction ys)
  case Nil
  then show ?case by (simp add: stable_ranking_def)
next
  case (Cons y ys)
  from Cons.prems have s: "stable_ranking (rev ys)"
    and y: "\<forall>x\<in>set ys. snd x < snd y \<or> (snd x = snd y \<and> fst x < fst y)"
    by (auto simp: stable_ranking_def sorted_wrt_append)
  show ?case
  proof (cases "snd v < snd y")
    case True
    from Cons.IH[OF s] Cons.prems(2) have "stable_ranking (rev (linear_insert_rev sortByMatching v ys))"
      by simp
    moreover have "linear_insert_rev sortByMatching v (y # ys) = y # linear_insert_rev sortByMatching v ys"
      using True by (simp add: sortByMatching_def)
    ultimately show ?thesis using True y
      by (auto simp: stable_ranking_def sorted_wrt_append)
  next
    case False
    then have "linear_insert_rev sortByMatching v (y # ys) = v # y # ys"
      by (simp add: sortByMatching_def)
    with False Cons.prems y show ?thesis
      by (fastforce simp: stable_ranking_def sorted_wrt_append)
  qed
qed

lemma stable_insertion_step:
  assumes "stable_ranking pre" and "\<forall>a\<in>set pre. fst a < fst v" and "pre \<noteq> []"
  shows "stable_ranking (insertion_step sortByMatching pre v)"
proof (cases "snd v < snd (hd pre)")
  case True
  obtain p ps where p: "pre = p # ps" using assms(3) by (cases pre) auto
  with assms(1) have "\<forall>x\<in>set ps. snd p \<le> snd x" by (auto simp: stable_ranking_def)
  moreover from True have "insertion_step sortByMatching pre v = v # pre"
    by (simp add: insertion_step_def sortByMatching_def)
  ultimately show ?thesis using True p assms(1)
    by (auto simp: stable_ranking_def)
next
  case False
  then have "insertion_step sortByMatching pre v = rev (linear_insert_rev sortByMatching v (rev pre))"
    by (simp add: insertion_step_def sortByMatching_def unguarded_linear_insert_def)
  with stable_linear_insert_rev[of "rev pre" v] assms show ?thesis
    by simp
qed

lemma stable_foldl_insertion_step:
  "stable_ranking pre \<Longrightarrow> pre \<noteq> [] \<Longrightarrow> \<forall>a\<in>set pre. \<forall>r\<in>set rest. fst a < fst r \<Longrightarrow>
   sorted_wrt (<) (map fst rest) \<Longrightarrow>
   stable_ranking (foldl (insertion_step sortByMatching) pre rest)"
proof (induction rest arbitrary: pre)
  case Nil
  then show ?case by simp
next
  case (Cons v rest)
  have a: "stable_ranking (insertion_step sortByMatching pre v)"
    using Cons.prems by (intro stable_insertion_step) auto
  have b: "\<forall>a\<in>set (insertion_step sortByMatching pre v). \<forall>r\<in>set rest. fst a < fst r"
  proof -
    have "set (insertion_step sortByMatching pre v) = insert v (set pre)"
      by (metis mset_insertion_step set_mset_add_mset_insert set_mset_mset)
    with Cons.prems(3,4) show ?thesis by auto
  qed
  from Cons.IH[OF a insertion_step_nonempty b] Cons.prems(4) show ?case by simp
qed

lemma stable_insertion_sort:
  "sorted_wrt (<) (map fst xs) \<Longrightarrow> stable_ranking (insertion_sort sortByMatching xs)"
proof (cases xs)
  case Nil
  then show ?thesis by (simp add: insertion_sort_def stable_ranking_def)
next
  case (Cons x rest)
  assume "sorted_wrt (<) (map fst xs)"
  with Cons have "stable_ranking (foldl (insertion_step sortByMatching) [x] rest)"
    by (intro stable_foldl_insertion_step) (auto simp: stable_ranking_def)
  with Cons show ?thesis by (simp add: insertion_sort_def)
qed

lemma stable_stl_sort:
  "length xs \<le> 16 \<Longrightarrow> sorted_wrt (<) (map fst xs) \<Longrightarrow> stable_ranking (stl_sort sortByMatching xs)"
  by (simp add: stl_sort_def introsort_loop_small final_insertion_sort_def stable_insertion_sort)
     (simp add: stable_ranking_def)

lemma fst_hash_matchings:
  "map fst (hash_matchings tk lc hv)
     = take (length (hash_table lc) - to_size_t (min_neighbour (params lc))) (map fst (hash_table lc))"
  by (simp add: hash_matchings_def take_map)

lemma sorted_wrt_take: "sorted_wrt P xs \<Longrightarrow> sorted_wrt P (take n xs)"
  by (metis append_take_drop_id sorted_wrt_append)

lemma tkS_conforms: "std_sort_conforms tkS"
  by (simp add: std_sort_conforms_def tkS_def sort_post_sortByMatching mset_stl_sort sorted_stl_sort)

text \<open>
  C6, as the code has it. With the \<open>std::sort\<close> of libstdc++ the candidate list is, for
  every query, a permutation of the scored eligible entries in ascending order of
  dissimilarity score, best first. When at most 16 entries are eligible (and the table is
  in order of index, as it is in every session), candidates with equal scores come in the
  order of their indices, earlier first.
\<close>
theorem ranking_sorted_by_score:
  assumes "std_sort tk = stl_sort"
  shows "sorted (map snd (std_sort tk sortByMatching (hash_matchings tk lc hash_val))) \<and>
         mset (std_sort tk sortByMatching (hash_matchings tk lc hash_val)) = mset (hash_matchings tk lc hash_val) \<and>
         (length (hash_matchings tk lc hash_val) \<le> 16 \<and> sorted_wrt (<) (map fst (hash_table lc)) \<longrightarrow>
            stable_ranking (std_sort tk sortByMatching (hash_matchings tk lc hash_val)))"
proof -
  have "stable_ranking (stl_sort sortByMatching (hash_matchings tk lc hash_val))"
    if "length (hash_matchings tk lc hash_val) \<le> 16" and "sorted_wrt (<) (map fst (hash_table lc))"
  proof -
    from that(2) have "sorted_wrt (<) (map fst (hash_matchings tk lc hash_val))"
      by (simp add: fst_hash_matchings sorted_wrt_take)
    with that(1) show ?thesis by (rule stable_stl_sort)
  qed
  then show ?thesis
    by (simp add: assms sorted_stl_sort mset_stl_sort)
qed

lemma ranking_S: "std_sort tkS sortByMatching (hash_matchings tkS lc5a [3]) = [(3, 0), (1, 5), (2, 13), (4, 15)]"
proof -
  have "hash_matchings tkS lc5a [3] = [(1, 5), (2, 13), (3, 0), (4, 15)]"
    by (simp add: hash_matchings_def lc5a_def lc5_def tkS_def tk0_def P0_def to_size_t_def match_def l1_def)
  moreover have "stl_sort sortByMatching [(1, 5), (2, 13), (3, 0), (4, 15)] = [(3, 0), (1, 5), (2, 13), (4, 15)]"
    by code_simp
  ultimately show ?thesis by (simp add: tkS_def)
qed

theorem ranking_sorted_by_score_witness:
  "std_sort tkS = stl_sort \<and>
   std_sort tkS sortByMatching (hash_matchings tkS lc5a [3]) = [(3, 0), (1, 5), (2, 13), (4, 15)] \<and>
   sorted (map snd (std_sort tkS sortByMatching (hash_matchings tkS lc5a [3]))) \<and>
   mset (std_sort tkS sortByMatching (hash_matchings tkS lc5a [3])) = mset (hash_matchings tkS lc5a [3]) \<and>
   length (hash_matchings tkS lc5a [3]) \<le> 16 \<and>
   sorted_wrt (<) (map fst (hash_table lc5a)) \<and>
   stable_ranking (std_sort tkS sortByMatching (hash_matchings tkS lc5a [3]))"
proof -
  have s: "std_sort tkS = stl_sort" by (simp add: tkS_def)
  have l: "length (hash_matchings tkS lc5a [3]) \<le> 16"
    by (simp add: hash_matchings_def lc5a_def lc5_def)
  have t: "sorted_wrt (<) (map fst (hash_table lc5a))"
    by (simp add: lc5a_def lc5_def)
  from ranking_sorted_by_score[OF s, of lc5a "[3]"] s l t ranking_S show ?thesis
    by simp
qed

subsection \<open>Seventeen equal scores\<close>

lemma hash_matchings_T: "hash_matchings tkS lcTa [3] = [(1, 0), (2, 0), (3, 0), (4, 0), (5, 0), (6, 0), (7, 0), (8, 0), (9, 0), (10, 0), (11, 0), (12, 0), (13, 0), (14, 0), (15, 0), (16, 0), (17, 0)]"
  by (simp add: hash_matchings_def lcTa_def lcT_def tkS_def tk0_def P1_def P0_def to_size_t_def match_def l1_def)

lemma stl_sort_T: "stl_sort sortByMatching [(1, 0), (2, 0), (3, 0), (4, 0), (5, 0), (6, 0), (7, 0), (8, 0), (9, 0), (10, 0), (11, 0), (12, 0), (13, 0), (14, 0), (15, 0), (16, 0), (17, 0)] = [(9, 0), (17, 0), (16, 0), (15, 0), (14, 0), (13, 0), (12, 0), (11, 0), (10, 0), (1, 0), (8, 0), (7, 0), (6, 0), (5, 0), (4, 0), (3, 0), (2, 0)]"
  by code_simp

lemma not_stable_T: "\<not> stable_ranking [(9, 0), (17, 0), (16, 0), (15, 0), (14, 0), (13, 0), (12, 0), (11, 0), (10, 0), (1, 0), (8, 0), (7, 0), (6, 0), (5, 0), (4, 0), (3, 0), (2, 0)]"
  by (simp add: stable_ranking_def)

lemma yml_lcTa9: "yml lcTa 9 = ''w/ex_7/9.yml''"
proof -
  have "lexical_cast 9 = ''9''" by code_simp
  then show ?thesis by (simp add: yml_def lcTa_def lcT_def)
qed

lemma getLoopClosure_T:
  "getLoopClosure tkS identity_tf lcT filesT (- 1) [] identity_tf = Inr ((True, 9, ''t'', identity_tf), lcTa)"
proof -
  let ?ms = "[(9, 0), (17, 0), (16, 0), (15, 0), (14, 0), (13, 0), (12, 0), (11, 0), (10, 0), (1, 0), (8, 0), (7, 0), (6, 0), (5, 0), (4, 0), (3, 0), (2, 0)] :: (int \<times> real) list"
  have a: "isInitialized (hash lcT)" by (simp add: lcT_def isInitialized_def)
  have b: "\<not> Suc (length (hash_table lcT)) \<le> to_size_t (min_neighbour (params lcT))"
    by (simp add: lcT_def P1_def P0_def to_size_t_def)
  have c: "[3] = getHash tkS (hash lcT) (getDesc (img lcT))"
    by (simp add: lcT_def getHash_def tkS_def tk0_def)
  have d: "lcTa = lcT\<lparr>hash_table := hash_table lcT @ [(img_idx lcT - 1, [3])]\<rparr>"
    by (simp add: lcTa_def lcT_def)
  have s: "std_sort tkS = stl_sort" by (simp add: tkS_def)
  have r: "?ms = std_sort tkS sortByMatching (hash_matchings tkS lcTa [3])"
    by (simp only: hash_matchings_T s stl_sort_T)
  have p: "int 0 < n_candidates (params lcTa)" "\<not> validate (params lcTa)"
    by (simp_all add: lcTa_def lcT_def P1_def P0_def)
  have e: "compute tkS lcTa filesT (img lcTa) (yml lcTa (fst (?ms ! 0))) [] identity_tf
      = Inr (True, ''t'', 2, 2, identity_tf)"
    by (simp add: yml_lcTa9) (simp add: compute_def lcTa_def lcT_def filesT_def tnode_def tkS_def tk0_def P1_def P0_def
        kp2_def vec_at_def cv_sum_def)
  have "candidate_loop tkS lcTa filesT identity_tf ?ms 0 False [] identity_tf = Inr (0, True, ''t'', identity_tf)"
    by (rule loop_accepted_plain[OF p(1) _ p(2) e]) simp
  then show ?thesis
    by (simp add: getLoopClosure_main[OF a b c d r])
qed

lemma exampleT_reached:
  "case session tkS identity_tf 7 P1 Map.empty obsT of
     Inl e \<Rightarrow> False
   | Inr (lc, files) \<Rightarrow>
       fst (ingest lc files obT) = lcT \<and>
       map (snd (ingest lc files obT)) [''w/ex_7/0.yml'', ''w/ex_7/1.yml'', ''w/ex_7/2.yml'', ''w/ex_7/3.yml'', ''w/ex_7/4.yml'', ''w/ex_7/5.yml'', ''w/ex_7/6.yml'', ''w/ex_7/7.yml'', ''w/ex_7/8.yml'', ''w/ex_7/9.yml'', ''w/ex_7/10.yml'', ''w/ex_7/11.yml'', ''w/ex_7/12.yml'', ''w/ex_7/13.yml'', ''w/ex_7/14.yml'', ''w/ex_7/15.yml'', ''w/ex_7/16.yml'', ''w/ex_7/17.yml'', ''w/ex_7/18.yml'', ''w/ex_7/19.yml'', ''w/ex_7/-1.yml''] = map filesT [''w/ex_7/0.yml'', ''w/ex_7/1.yml'', ''w/ex_7/2.yml'', ''w/ex_7/3.yml'', ''w/ex_7/4.yml'', ''w/ex_7/5.yml'', ''w/ex_7/6.yml'', ''w/ex_7/7.yml'', ''w/ex_7/8.yml'', ''w/ex_7/9.yml'', ''w/ex_7/10.yml'', ''w/ex_7/11.yml'', ''w/ex_7/12.yml'', ''w/ex_7/13.yml'', ''w/ex_7/14.yml'', ''w/ex_7/15.yml'', ''w/ex_7/16.yml'', ''w/ex_7/17.yml'', ''w/ex_7/18.yml'', ''w/ex_7/19.yml'', ''w/ex_7/-1.yml'']"
  by code_simp

text \<open>
  C6 as stated fails on the ties once more than 16 entries are eligible. The camera that
  stands still gives seventeen candidates with score 0 at observation 18. \<open>std::sort\<close>
  partitions them around the median of three, which swaps the first with the middle one
  and then the others in pairs from both ends, and its final insertion sort moves
  nothing: the best candidate is observation 9, the second one observation 17, and the
  call reports a loop closure with observation 9 where index order has observation 1.
\<close>
theorem ranking_ties_counterexample:
  "std_sort tkS = stl_sort \<and>
   hash_matchings tkS lcTa [3] = [(1, 0), (2, 0), (3, 0), (4, 0), (5, 0), (6, 0), (7, 0), (8, 0), (9, 0), (10, 0), (11, 0), (12, 0), (13, 0), (14, 0), (15, 0), (16, 0), (17, 0)] \<and>
   std_sort tkS sortByMatching (hash_matchings tkS lcTa [3]) = [(9, 0), (17, 0), (16, 0), (15, 0), (14, 0), (13, 0), (12, 0), (11, 0), (10, 0), (1, 0), (8, 0), (7, 0), (6, 0), (5, 0), (4, 0), (3, 0), (2, 0)] \<and>
   \<not> stable_ranking (std_sort tkS sortByMatching (hash_matchings tkS lcTa [3])) \<and>
   getLoopClosure tkS identity_tf lcT filesT (- 1) [] identity_tf = Inr ((True, 9, ''t'', identity_tf), lcTa)"
proof -
  have s: "std_sort tkS = stl_sort" by (simp add: tkS_def)
  show ?thesis
    by (simp only: s hash_matchings_T stl_sort_T not_stable_T getLoopClosure_T simp_thms)
qed

subsection \<open>The table during a session\<close>

lemma example_session: "session tk0 identity_tf 7 P0 Map.empty obs0 = Inr (lc4, files4)"
  apply (simp only: session_def init_example sum.case)
  by (simp add: obs0_def lcA_def new_LoopClosure_def setNode_def setNode_stereo_def
      Let_def getLoopClosure_def isInitialized_def Hash_init_def getHash_def tk0_def P0_def yml_def
      lexical_cast_small to_size_t_def hash_matchings_def match_def l1_def sortByMatching_def
      candidate_loop.simps compute_def validation_def vec_at_def cv_sum_def kp2_def identity_tf_def
      lc4_def files4_def)

lemma example_ingest: "ingest lc4 files4 ob5 = (lc5, files5)"
  by (simp add: ob5_def setNode_def Let_def lc4_def lc5_def files4_def files5_def yml_def lexical_cast_small P0_def)

lemma getLoopClosure_state:
  assumes "getLoopClosure tk tv lc files i n t = Inr (r, lc')"
  shows "(\<not> isInitialized (hash lc) \<and>
            lc' = lc\<lparr>hash := Hash_init tk (num_proj (params lc)) (hash lc) (getDesc (img lc)) True\<rparr>) \<or>
         (isInitialized (hash lc) \<and>
            lc' = lc\<lparr>hash_table := hash_table lc @ [(img_idx lc - 1, getHash tk (hash lc) (getDesc (img lc)))]\<rparr>)"
  using assms
  by (auto simp: getLoopClosure_def Let_def split: if_splits sum.splits prod.splits)

lemma upt_int_snoc: "1 \<le> i \<Longrightarrow> map int [1..<nat (i + 1)] = map int [1..<nat i] @ [i]"
proof -
  assume a: "1 \<le> i"
  then have "nat (i + 1) = Suc (nat i)" by simp
  moreover from a have "1 \<le> nat i" by simp
  ultimately show ?thesis using a by simp
qed

lemma step_inv:
  assumes "table_inv lc" and "ingest lc files ob = (lc1, files1)"
    and "getLoopClosure tk tv lc1 files1 i n t = Inr (r, lc2)"
  shows "table_inv lc2 \<and> params lc2 = params lc \<and> img_idx lc2 = img_idx lc + 1"
proof -
  from ingest_state[OF assms(2)] have s: "hash_table lc1 = hash_table lc" "img_idx lc1 = img_idx lc + 1"
    "hash lc1 = hash lc" "params lc1 = params lc"
    by simp_all
  from getLoopClosure_state[OF assms(3)] show ?thesis
  proof
    assume "\<not> isInitialized (hash lc1) \<and>
      lc2 = lc1\<lparr>hash := Hash_init tk (num_proj (params lc1)) (hash lc1) (getDesc (img lc1)) True\<rparr>"
    with assms(1) s show ?thesis
      by (simp add: table_inv_def isInitialized_def Hash_init_def)
  next
    assume a: "isInitialized (hash lc1) \<and>
      lc2 = lc1\<lparr>hash_table := hash_table lc1 @ [(img_idx lc1 - 1, getHash tk (hash lc1) (getDesc (img lc1)))]\<rparr>"
    with assms(1) s have "1 \<le> img_idx lc" "map fst (hash_table lc) = map int [1..<nat (img_idx lc)]"
      by (simp_all add: table_inv_def)
    with a s upt_int_snoc[of "img_idx lc"] show ?thesis
      by (simp add: table_inv_def)
  qed
qed

lemma run_inv:
  "run tk tv s obs = Inr s' \<Longrightarrow> table_inv (fst s) \<Longrightarrow>
   table_inv (fst s') \<and> params (fst s') = params (fst s) \<and> img_idx (fst s') = img_idx (fst s) + int (length obs)"
proof (induction obs arbitrary: s)
  case Nil
  then show ?case by simp
next
  case (Cons ob obs)
  obtain lc1 files1 where i: "ingest (fst s) (snd s) ob = (lc1, files1)"
    by (cases "ingest (fst s) (snd s) ob")
  show ?case
  proof (cases "getLoopClosure tk tv lc1 files1 (- 1) [] identity_tf")
    case (Inl e)
    with Cons.prems(1) i show ?thesis by simp
  next
    case (Inr x)
    obtain r lc2 where x: "x = (r, lc2)" by (cases x)
    from step_inv[OF Cons.prems(2) i Inr[unfolded x]]
    have a: "table_inv lc2" "params lc2 = params (fst s)" "img_idx lc2 = img_idx (fst s) + 1"
      by simp_all
    from Cons.prems(1) i Inr x have "run tk tv (lc2, files1) obs = Inr s'" by simp
    from Cons.IH[OF this] a show ?thesis by simp
  qed
qed

lemma session_inv:
  assumes "session tk tv now P files0 obs = Inr (lc, files)"
  shows "table_inv lc \<and> min_neighbour (params lc) = min_neighbour P \<and> img_idx lc = int (length obs)"
proof (cases "init now (new_LoopClosure P) files0")
  case (Inl e)
  with assms show ?thesis by (simp add: session_def)
next
  case (Inr s)
  obtain lc0 f0 where s: "s = (lc0, f0)" by (cases s)
  from init_state[OF Inr[unfolded s]]
  have a: "hash_table lc0 = []" "img_idx lc0 = 0" "hash lc0 = hash (new_LoopClosure P)"
    "params lc0 = P\<lparr>work_dir := work_dir (params lc0)\<rparr>"
    by (simp_all add: new_LoopClosure_def)
  have m: "min_neighbour (params lc0) = min_neighbour P" by (subst a(4)) simp
  from a have t: "table_inv (fst s)" by (simp add: s table_inv_def isInitialized_def new_LoopClosure_def)
  from assms Inr have "run tk tv s obs = Inr (lc, files)" by (simp add: session_def)
  from run_inv[OF this t] a m s show ?thesis by simp
qed

lemma eligible_gap:
  assumes "map fst tbl = map int [1..<Suc (length tbl)]"
    and "e \<in> set (take (length tbl - u) tbl)"
  shows "int u \<le> int (length tbl) - fst e"
proof -
  from assms(2) obtain j where j: "j < length tbl - u" "e = tbl ! j"
    by (auto simp: in_set_conv_nth)
  then have "j < length tbl" by simp
  then have u: "[1..<Suc (length tbl)] ! j = 1 + j"
    by (intro nth_upt) simp
  have "fst (tbl ! j) = map fst tbl ! j" using \<open>j < length tbl\<close> by simp
  also have "\<dots> = map int [1..<Suc (length tbl)] ! j" by (simp only: assms(1))
  also have "\<dots> = int ([1..<Suc (length tbl)] ! j)"
    using \<open>j < length tbl\<close> by (intro nth_map) simp
  finally have "fst e = int (1 + j)" using u j by simp
  then show ?thesis using j by simp
qed

text \<open>
  C1, as the code has it. In every session (\<open>init\<close>, then \<open>setNode\<close> and
  \<open>getLoopClosure\<close> once per observation), when \<open>getLoopClosure\<close> reports a loop closure
  for the observation just stored, the reported index is the index of one of the table
  entries that were scored, that is of the table without its last \<open>min_neighbour\<close>
  entries, the entry of the current observation being one of these; so it lies at least
  \<open>min_neighbour\<close> behind the index of the current observation, and an observation
  exactly \<open>min_neighbour\<close> behind is eligible. (The sort is any \<open>std::sort\<close> that keeps the
  promise of the standard; \<open>min_neighbour\<close> is an \<open>int\<close>, below 2^31.)
\<close>
theorem reported_index_respects_gap:
  assumes "session tk tv now P files0 obs = Inr (lc, files)"
    and "ingest lc files ob = (lc1, files1)"
    and "getLoopClosure tk tv lc1 files1 i0 n0 t0 = Inr ((True, idx, nm, t'), lc2)"
    and "std_sort_conforms tk"
    and "min_neighbour P < 2 ^ 31"
  shows "idx \<in> fst ` set (take (length (hash_table lc2) - to_size_t (min_neighbour P)) (hash_table lc2)) \<and>
         img_idx lc1 - 1 = int (length obs) \<and>
         min_neighbour P \<le> (img_idx lc1 - 1) - idx"
proof -
  from session_inv[OF assms(1)] have inv: "table_inv lc" and mn: "min_neighbour (params lc) = min_neighbour P"
    and cur: "img_idx lc = int (length obs)"
    by simp_all
  from step_inv[OF inv assms(2,3)] have inv2: "table_inv lc2" and p2: "params lc2 = params lc"
    and i2: "img_idx lc2 = img_idx lc + 1"
    by simp_all
  from ingest_state[OF assms(2)] have i1: "img_idx lc1 = img_idx lc + 1" by simp
  define hv where "hv = getHash tk (hash lc1) (getDesc (img lc1))"
  define ms where "ms = std_sort tk sortByMatching (hash_matchings tk lc2 hv)"
  from getLoopClosure_True[OF assms(3)] obtain b where
    init1: "isInitialized (hash lc1)"
    and lc2: "lc2 = lc1\<lparr>hash_table := hash_table lc1 @ [(img_idx lc1 - 1, hv)]\<rparr>"
    and b: "b < length ms" and idx: "idx = fst (ms ! b)"
    unfolding hv_def ms_def by blast
  from assms(4) have "mset ms = mset (hash_matchings tk lc2 hv)"
    by (simp add: ms_def std_sort_conforms_def sort_post_def)
  then have "set ms = set (hash_matchings tk lc2 hv)" by (rule mset_eq_setD)
  with b have "ms ! b \<in> set (hash_matchings tk lc2 hv)" by (metis nth_mem)
  then obtain e where e: "e \<in> set (take (length (hash_table lc2) - to_size_t (min_neighbour P)) (hash_table lc2))"
    and ie: "idx = fst e"
    unfolding hash_matchings_def p2 mn idx by auto
  from init1 lc2 have "isInitialized (hash lc2)" by simp
  with inv2 i2 cur have "map fst (hash_table lc2) = map int [1..<Suc (length obs)]"
    by (simp add: table_inv_def nat_add_distrib)
  moreover from this have len: "length (hash_table lc2) = length obs"
    by (metis length_map length_upt diff_Suc_1)
  ultimately have "map fst (hash_table lc2) = map int [1..<Suc (length (hash_table lc2))]" by simp
  from eligible_gap[OF this e] len ie
  have g: "int (to_size_t (min_neighbour P)) \<le> int (length obs) - idx" by simp
  have "min_neighbour P \<le> int (to_size_t (min_neighbour P))"
  proof (cases "0 \<le> min_neighbour P")
    case True
    with assms(5) show ?thesis by (simp add: to_size_t_nonneg)
  next
    case False
    then show ?thesis by simp
  qed
  with g e ie i1 cur show ?thesis by auto
qed

theorem reported_index_respects_gap_witness:
  "session tk0 identity_tf 7 P0 Map.empty obs0 = Inr (lc4, files4) \<and>
   ingest lc4 files4 ob5 = (lc5, files5) \<and>
   getLoopClosure tk0 identity_tf lc5 files5 (- 1) [] identity_tf
     = Inr ((True, 1, ''n1'', (fst identity_tf, [1, 2, 3])), lc5a) \<and>
   std_sort_conforms tk0 \<and> min_neighbour P0 < 2 ^ 31 \<and>
   1 \<in> fst ` set (take (length (hash_table lc5a) - to_size_t (min_neighbour P0)) (hash_table lc5a)) \<and>
   img_idx lc5 - 1 = int (length obs0) \<and>
   min_neighbour P0 \<le> (img_idx lc5 - 1) - 1"
proof -
  have h: "min_neighbour P0 < 2 ^ 31" by (simp add: P0_def)
  from reported_index_respects_gap[OF example_session example_ingest getLoopClosure_ex tk0_conforms h]
    example_session example_ingest getLoopClosure_ex tk0_conforms h
  show ?thesis by simp
qed

subsection \<open>The predecessor of observation 0\<close>

lemmas eval_defs = setNode_def setNode_stereo_def
      Let_def getLoopClosure_def isInitialized_def Hash_init_def getHash_def tk0_def P0_def yml_def
      lexical_cast_small to_size_t_def hash_matchings_def match_def l1_def sortByMatching_def
      candidate_loop.simps compute_def validation_def vec_at_def cv_sum_def kp2_def identity_tf_def

lemma example7_reached:
  "getLoopClosure tk0 identity_tf lcA Map.empty (- 1) [] identity_tf
     = Inr ((False, - 1, [], identity_tf), lcA\<lparr>hash := \<lparr>initialized = True, basis = []\<rparr>\<rparr>)"
  "case run tk0 identity_tf (lcA\<lparr>hash := \<lparr>initialized = True, basis = []\<rparr>\<rparr>, Map.empty) obs7 of
     Inl e \<Rightarrow> False
   | Inr (lc, files) \<Rightarrow> ingest lc files ob7 = (lc7, files7)"
  by (simp_all add: lcA_def new_LoopClosure_def obs7_def ob7_def lc7_def files7_def eval_defs)

lemma yml_lc7a:
  "yml lc7a (- 1) = ''w/ex_7/-1.yml''" "yml lc7a 0 = ''w/ex_7/0.yml''" "yml lc7a 1 = ''w/ex_7/1.yml''"
  by (simp_all add: yml_def lc7a_def lc7_def lexical_cast_small)

lemma files7_minus1: "files7 (yml lc7a (- 1)) = None"
  by (simp add: yml_lc7a files7_def)

lemma yml_minus1: "yml lc (- 1) = work_dir (params lc) @ ''/-1.yml''"
  by (simp add: yml_def lexical_cast_small)

text \<open>
  \<open>setNode\<close> names the file after \<open>img_idx\<close>, which starts at 0 and grows: it never
  writes the file of a negative index, whose name starts with a minus sign.
\<close>
lemma digit_char_not_minus: "d < 10 \<Longrightarrow> digit_char d \<noteq> CHR ''-''"
proof
  assume d: "d < 10" and "digit_char d = CHR ''-''"
  then have "of_char (char_of (48 + d) :: char) = (of_char CHR ''-'' :: nat)"
    by (simp add: digit_char_def)
  with d show False by (simp add: of_char_of)
qed

lemma digits_hd: "digits n \<noteq> [] \<and> hd (digits n) \<noteq> CHR ''-''"
proof (induction n rule: digits.induct)
  case (1 n)
  show ?case
  proof (cases "n < 10")
    case True
    then show ?thesis by (subst (1 2) digits.simps) (simp add: digit_char_not_minus)
  next
    case False
    with 1 show ?thesis by (subst (1 2) digits.simps) simp
  qed
qed

lemma lexical_cast_sign: "i < 0 \<Longrightarrow> 0 \<le> j \<Longrightarrow> lexical_cast i \<noteq> lexical_cast j"
  using digits_hd[of "nat j"] by (auto simp: lexical_cast_def dest: arg_cong[where f=hd])

lemma yml_sign: "i < 0 \<Longrightarrow> 0 \<le> j \<Longrightarrow> yml lc i \<noteq> yml lc j"
  by (simp add: yml_def lexical_cast_sign)

lemma ingest_negative_index:
  "0 \<le> img_idx lc \<Longrightarrow> i < 0 \<Longrightarrow> snd (ingest lc files ob) (yml lc i) = files (yml lc i)"
proof -
  assume a: "0 \<le> img_idx lc" "i < 0"
  have y: "yml (lc\<lparr>img := im\<rparr>) j = yml lc j" for im j by (simp add: yml_def)
  have "yml lc i \<noteq> yml lc (img_idx lc)" by (rule yml_sign[OF a(2) a(1)])
  then show ?thesis
    by (cases ob) (simp_all add: setNode_def setNode_stereo_def Let_def y)
qed

text \<open>
  C7, as the code has it. The index of the predecessor is not clamped: the validation of
  a candidate reads the file named after the candidate's index minus one, for candidate
  0 the file \<open>-1.yml\<close>. When that file does not exist the first verification of the
  validation fails, as any verification against a missing file does, and the verdict of
  the validation is the one of the verification against the file of the next index.
\<close>
theorem negative_predecessor_not_clamped:
  assumes "files (yml lc (first - 1)) = None"
  shows "validation tk lc files tv first
           = map_sum id fst (compute tk lc files (img lc) (yml lc (first + 1)) [] tv) \<and>
         yml lc (0 - 1) = work_dir (params lc) @ ''/-1.yml''"
  using compute_missing[of files "yml lc (first - 1)" tk lc "img lc" "[]" tv] assms
  by (simp add: validation_verdicts yml_minus1)

theorem negative_predecessor_not_clamped_witness:
  "files7 (yml lc7a (0 - 1)) = None \<and>
   validation tk0 lc7a files7 identity_tf 0
     = map_sum id fst (compute tk0 lc7a files7 (img lc7a) (yml lc7a (0 + 1)) [] identity_tf) \<and>
   compute tk0 lc7a files7 (img lc7a) (yml lc7a (0 + 1)) [] identity_tf = Inr (False, ''m1'', 0, 0, identity_tf) \<and>
   yml lc7a (0 - 1) = ''w/ex_7/-1.yml''"
proof -
  have h: "files7 (yml lc7a (0 - 1)) = None" using files7_minus1 by simp
  have c: "compute tk0 lc7a files7 (img lc7a) (yml lc7a (0 + 1)) [] identity_tf = Inr (False, ''m1'', 0, 0, identity_tf)"
    by (simp add: lc7a_def lc7_def files7_def eval_defs)
  have w: "work_dir (params lc7a) = ''w/ex_7''" by (simp add: lc7a_def lc7_def)
  from negative_predecessor_not_clamped[of files7 lc7a 0 tk0 identity_tf, OF h] h c w show ?thesis
    by simp
qed

text \<open>
  C7 as stated fails. In the second example the best candidate for observation 2 is
  observation 0, and the verification against the file of observation 0 succeeds; a
  predecessor index clamped at 0 would validate the candidate. The code reads
  \<open>-1.yml\<close>, which is not there, then \<open>1.yml\<close>, which does not match: the validation
  fails and \<open>getLoopClosure\<close> reports no loop closure.
\<close>
theorem negative_predecessor_counterexample:
  "compute tk0 lc7a files7 (img lc7a) (yml lc7a 0) [] identity_tf = Inr (True, ''m0'', 2, 2, identity_tf) \<and>
   yml lc7a (0 - 1) = ''w/ex_7/-1.yml'' \<and>
   files7 (yml lc7a (0 - 1)) = None \<and>
   validation tk0 lc7a files7 identity_tf 0 = Inr False \<and>
   getLoopClosure tk0 identity_tf lc7 files7 (- 1) [] identity_tf = Inr ((False, - 1, [], identity_tf), lc7a)"
  by (simp add: lc7a_def lc7_def files7_def eval_defs)

subsection \<open>The caller's variables when no loop is closed\<close>

lemma example8_reached:
  "case session tk0 identity_tf 7 P0 Map.empty obs8 of
     Inl e \<Rightarrow> False
   | Inr (lc, files) \<Rightarrow> ingest lc files ob8 = (lc8, files8)"
  apply (simp only: session_def init_example sum.case)
  by (simp add: lcA_def new_LoopClosure_def obs8_def ob8_def lc8_def files8_def eval_defs)

text \<open>
  C8 against the code. The bootstrap return and the return for too few neighbours leave
  \<open>lc_img_idx\<close>, \<open>lc_name\<close> and the transform as the caller handed them in (here 7,
  \<open>old\<close> and a transform that is not the identity). In the third example the stereo
  candidate 1 passes the primary verification, which writes its pose, and fails the
  validation; no other candidate is accepted, and \<open>getLoopClosure\<close> returns \<open>false\<close> with
  index -1, an empty name and that pose.
\<close>
theorem no_closure_outputs_evaluated:
  "map_sum id fst (getLoopClosure tk0 identity_tf (fst (ingest lcA Map.empty ob5)) (snd (ingest lcA Map.empty ob5))
       7 ''old'' ([[2]], [5]))
     = Inr (False, 7, ''old'', ([[2]], [5])) \<and>
   map_sum id fst (getLoopClosure tk0 identity_tf lc5_gap5 files5 7 ''old'' ([[2]], [5]))
     = Inr (False, 7, ''old'', ([[2]], [5])) \<and>
   map_sum id fst (getLoopClosure tk0 identity_tf lc8 files8 (- 1) [] identity_tf)
     = Inr (False, - 1, [], (fst identity_tf, [1, 2, 3]))"
proof -
  have "\<not> isInitialized (hash (fst (ingest lcA Map.empty ob5)))"
    by (simp add: ob5_def setNode_def Let_def lcA_def new_LoopClosure_def isInitialized_def)
  then have a: "map_sum id fst (getLoopClosure tk0 identity_tf (fst (ingest lcA Map.empty ob5))
       (snd (ingest lcA Map.empty ob5)) 7 ''old'' ([[2]], [5])) = Inr (False, 7, ''old'', ([[2]], [5]))"
    by (simp add: getLoopClosure_uninitialized)
  have b: "map_sum id fst (getLoopClosure tk0 identity_tf lc5_gap5 files5 7 ''old'' ([[2]], [5]))
     = Inr (False, 7, ''old'', ([[2]], [5]))"
    by (simp add: getLoopClosure_def Let_def lc5_gap5_def lc5_def isInitialized_def to_size_t_def P0_def)
  have c: "map_sum id fst (getLoopClosure tk0 identity_tf lc8 files8 (- 1) [] identity_tf)
     = Inr (False, - 1, [], (fst identity_tf, [1, 2, 3]))"
    by (simp add: lc8_def files8_def eval_defs)
  from a b c show ?thesis by simp
qed

subsection \<open>An observation exactly \<open>min_neighbour\<close> behind\<close>

lemma init_P1: "init 7 (new_LoopClosure P1) Map.empty = Inr (lcA\<lparr>params := P1\<lparr>work_dir := ''w/ex_7''\<rparr>\<rparr>, Map.empty)"
  by (simp add: init_def new_LoopClosure_def P1_def P0_def lcA_def vec_at_def lexical_cast_7 Let_def)

text \<open>
  C1 as stated fails when "within \<open>min_neighbour\<close>" includes the distance \<open>min_neighbour\<close>
  itself. With \<open>min_neighbour = 1\<close> the loop bound \<open>hash_table_.size() - min_neighbour\<close>
  leaves out the entry of the current observation only: for observation 3, which looks
  like observation 2, the call reports a loop closure with index 2, one behind.
\<close>
theorem reported_index_gap_counterexample:
  "session tk0 identity_tf 7 P1 Map.empty obsG = Inr (lcG, filesG) \<and>
   ingest lcG filesG obG = (lcG1, filesG1) \<and>
   getLoopClosure tk0 identity_tf lcG1 filesG1 (- 1) [] identity_tf
     = Inr ((True, 2, ''g2'', identity_tf), lcG2) \<and>
   min_neighbour P1 = 1 \<and> img_idx lcG1 - 1 = 3 \<and>
   \<not> min_neighbour P1 < (img_idx lcG1 - 1) - 2"
proof -
  have a: "session tk0 identity_tf 7 P1 Map.empty obsG = Inr (lcG, filesG)"
    apply (simp only: session_def init_P1 sum.case)
    by (simp add: lcA_def new_LoopClosure_def obsG_def lcG_def filesG_def P1_def eval_defs)
  have b: "ingest lcG filesG obG = (lcG1, filesG1)"
    by (simp add: obG_def lcG1_def lcG_def filesG1_def filesG_def P1_def eval_defs)
  have c: "getLoopClosure tk0 identity_tf lcG1 filesG1 (- 1) [] identity_tf
     = Inr ((True, 2, ''g2'', identity_tf), lcG2)"
    by (simp add: lcG2_def lcG1_def lcG_def filesG1_def filesG_def P1_def eval_defs)
  show ?thesis
    by (simp add: a b c) (simp add: P1_def P0_def lcG1_def)
qed

subsection \<open>A pose left behind by a rejected candidate\<close>

text \<open>
  \<open>getLoopClosure\<close> sets \<open>trans\<close> to the identity once, before the candidate loop, and
  hands the same variable to the primary verification of every candidate. In the mixed
  session the best candidate, observation 1, is stereo: its verification succeeds and
  writes the pose \<open>[1, 2, 3]\<close>, and its validation fails. The next candidate, observation
  3, is mono.
\<close>

lemma exampleM_reached:
  "case session tk0 identity_tf 7 P0 Map.empty obsM of
     Inl e \<Rightarrow> False
   | Inr (lc, files) \<Rightarrow> ingest lc files obM = (lcM, filesM)"
  apply (simp only: session_def init_example sum.case)
  by (simp add: lcA_def new_LoopClosure_def obsM_def obM_def lcM_def filesM_def eval_defs)

lemma yml_lcMa:
  "yml lcMa 1 = ''w/ex_7/1.yml''" "yml lcMa 3 = ''w/ex_7/3.yml''"
  by (simp_all add: yml_def lcMa_def lcM_def lexical_cast_small)

text \<open>
  C9 against the code. The record of observation 3 is mono, and its verification, the
  one that the call accepts, is handed the pose of observation 1 and returns it: the
  transform of this mono verification is not the identity that was set before the
  candidate loop.
\<close>
theorem mono_verification_stale_pose:
  "std_sort tk0 sortByMatching (hash_matchings tk0 lcMa [3]) = [(1, 0), (3, 1), (4, 7), (2, 13)] \<and>
   (\<exists>node. filesM (yml lcMa 3) = Some node \<and> node_threed node = []) \<and>
   candidate_loop tk0 lcMa filesM identity_tf [(1, 0), (3, 1), (4, 7), (2, 13)] 0 False [] identity_tf
     = candidate_loop tk0 lcMa filesM identity_tf [(1, 0), (3, 1), (4, 7), (2, 13)] 1 False ''x1'' (fst identity_tf, [1, 2, 3]) \<and>
   compute tk0 lcMa filesM (img lcMa) (yml lcMa 3) ''x1'' (fst identity_tf, [1, 2, 3])
     = Inr (True, ''x3'', 1, 1, (fst identity_tf, [1, 2, 3])) \<and>
   (fst identity_tf, [1, 2, 3]) \<noteq> identity_tf"
  by (simp add: lcMa_def lcM_def filesM_def eval_defs foldr_conv_fold)

text \<open>
  C10 against the code. The call accepts observation 3 with \<open>validate\<close> on and returns
  the name of observation 3 with the pose \<open>[1, 2, 3]\<close>. The primary verification against
  the file of observation 3 produces no pose (from the identity it returns the identity);
  the pose is the one that the primary verification of observation 1 computed, a
  candidate whose validation failed.
\<close>
theorem accepted_transform_of_other_candidate:
  "getLoopClosure tk0 identity_tf lcM filesM (- 1) [] identity_tf
     = Inr ((True, 3, ''x3'', (fst identity_tf, [1, 2, 3])), lcMa) \<and>
   compute tk0 lcMa filesM (img lcMa) (yml lcMa 3) [] identity_tf = Inr (True, ''x3'', 1, 1, identity_tf) \<and>
   compute tk0 lcMa filesM (img lcMa) (yml lcMa 1) [] identity_tf
     = Inr (True, ''x1'', 2, 2, (fst identity_tf, [1, 2, 3])) \<and>
   validation tk0 lcMa filesM identity_tf 1 = Inr False \<and>
   validation tk0 lcMa filesM identity_tf 3 = Inr True"
  by (simp add: lcMa_def lcM_def filesM_def eval_defs)

end
